theory Spec2Isabelle
  imports
    Main
    "HOL-Library.Sublist"
    "HOL-Library.AList"
    "HOL-Library.Char_ord"
    "HOL-Library.List_Lexorder"
begin

section \<open>NOAA temperature files: cleaning and yearly averages (src/src/flow.py)\<close>

text \<open>
  The flow reads station-year CSV files from an S3 bucket, moves files with bad spatial
  columns under \<open>_data_error/\<close>, and writes one summary per year under \<open>year_average/\<close>.
  The embedding follows \<open>flow.py\<close> function by function. The bucket is explicit state;
  every Python exception is a value of \<open>py_error\<close>, and a function that can raise
  returns \<open>py_error + 'a\<close> (\<open>Inl\<close> the exception) next to the bucket it leaves behind.
\<close>

subsection \<open>Exceptions\<close>

text \<open>
  \<open>ParamValidationError\<close> is botocore's, raised by the client before a request is sent.
  \<open>Unlisted\<close> is not a Python exception: the tables of sample results further down
  answer it for an input they do not list.
\<close>

datatype py_error =
    KeyError | IndexError | ValueError | AttributeError | TypeError
  | UnboundLocalError | EmptyDataError | ParserError | NoSuchKey | ClientError
  | ParamValidationError | Unlisted

subsection \<open>Python strings and lists\<close>

text \<open>\<open>s.split(sep)\<close> for a one-character separator: never the empty list.\<close>

fun split_on :: "char \<Rightarrow> string \<Rightarrow> string list" where
  "split_on sep [] = [[]]"
| "split_on sep (c # cs) =
     (if c = sep then [] # split_on sep cs
      else (case split_on sep cs of
              [] \<Rightarrow> [[c]]
            | p # ps \<Rightarrow> (c # p) # ps))"

text \<open>\<open>needle in s\<close> on strings: \<open>needle\<close> occurs as a contiguous run of \<open>s\<close>.\<close>

fun contains :: "string \<Rightarrow> string \<Rightarrow> bool" where
  "contains needle [] = (needle = [])"
| "contains needle (c # cs) = (if prefix needle (c # cs) then True else contains needle cs)"

text \<open>Truth value of a Python expression that is \<open>None\<close> or a string.\<close>

fun truthy :: "string option \<Rightarrow> bool" where
  "truthy None = False"
| "truthy (Some s) = (if s = [] then False else True)"

text \<open>\<open>xs[:n]\<close>: a negative \<open>n\<close> counts from the end.\<close>

definition py_slice_to :: "int \<Rightarrow> 'a list \<Rightarrow> 'a list" where
  "py_slice_to n xs = (if 0 \<le> n then take (nat n) xs else take (nat (int (length xs) + n)) xs)"

text \<open>
  \<open>range(0, n, step)\<close> for a length \<open>n\<close>: \<open>ValueError\<close> for step zero, nothing for a
  negative step, and \<open>0, step, 2*step, ...\<close> below \<open>n\<close> otherwise.
\<close>

definition py_range0 :: "nat \<Rightarrow> int \<Rightarrow> py_error + nat list" where
  "py_range0 n step =
     (if step = 0 then Inl ValueError
      else if step < 0 then Inr []
      else Inr (map (\<lambda>k. k * nat step) [0 ..< (n + nat step - 1) div nat step]))"

text \<open>\<open>xs[i : i + n]\<close> for \<open>0 \<le> i\<close> and \<open>0 < n\<close>.\<close>

definition py_slice :: "nat \<Rightarrow> nat \<Rightarrow> 'a list \<Rightarrow> 'a list" where
  "py_slice i n xs = take n (drop i xs)"

text \<open>
  Whitespace removed by \<open>str.strip()\<close>. A \<open>char\<close> is a code point below 256; of
  Python's whitespace these are the ASCII ones, U+0085 and U+00A0. The Unicode spaces
  from U+1680 on have no \<open>char\<close>.
\<close>

definition is_space :: "char \<Rightarrow> bool" where
  "is_space c = (c \<in> set [CHR 0x09, CHR 0x0A, CHR 0x0B, CHR 0x0C, CHR 0x0D,
                           CHR 0x1C, CHR 0x1D, CHR 0x1E, CHR 0x1F, CHR 0x20,
                           CHR 0x85, CHR 0xA0])"

definition strip :: "string \<Rightarrow> string" where
  "strip s = rev (dropWhile is_space (rev (dropWhile is_space s)))"

text \<open>\<open>sep.join(parts)\<close>.\<close>

fun join :: "string \<Rightarrow> string list \<Rightarrow> string" where
  "join sep [] = []"
| "join sep [p] = p"
| "join sep (p # q # ps) = p @ sep @ join sep (q # ps)"

text \<open>Running a fallible function over a list, left to right, stopping at the first exception.\<close>

fun map_err :: "('a \<Rightarrow> py_error + 'b) \<Rightarrow> 'a list \<Rightarrow> py_error + 'b list" where
  "map_err f [] = Inr []"
| "map_err f (x # xs) =
     (case f x of
        Inl e \<Rightarrow> Inl e
      | Inr y \<Rightarrow> (case map_err f xs of Inl e \<Rightarrow> Inl e | Inr ys \<Rightarrow> Inr (y # ys)))"

subsection \<open>The bucket\<close>

text \<open>
  One S3 bucket: the objects by key, the clock the store stamps writes with (seconds),
  and the log of \<open>get_object\<close> calls. An object has its body, its \<open>LastModified\<close> and its
  user metadata. \<open>objects\<close> is read with \<open>map_of\<close>; listings go through
  \<open>AList.clearjunk\<close>, so a key counts once.
\<close>

record s3_object =
  body :: string
  last_modified :: int
  metadata :: "(string \<times> string) list"

record s3 =
  objects :: "(string \<times> s3_object) list"
  clock :: int
  gets :: "string list"

text \<open>\<open>s3_client.put_object(Bucket, Body, Key)\<close>: creates or replaces the object.\<close>

definition put_object :: "string \<Rightarrow> string \<Rightarrow> s3 \<Rightarrow> s3" where
  "put_object key bdy st =
     st\<lparr>objects := AList.update key
            \<lparr>body = bdy, last_modified = clock st, metadata = []\<rparr> (objects st)\<rparr>"

text \<open>\<open>s3_client.get_object(Bucket, Key)["Body"]\<close>: \<open>NoSuchKey\<close> when the key is absent.\<close>

definition get_object :: "string \<Rightarrow> s3 \<Rightarrow> (py_error + string) \<times> s3" where
  "get_object key st =
     ((case map_of (objects st) key of
         None \<Rightarrow> Inl NoSuchKey
       | Some ob \<Rightarrow> Inr (body ob)),
      st\<lparr>gets := gets st @ [key]\<rparr>)"

text \<open>
  \<open>bucket.copy(copy_source, key)\<close>, boto3's managed copy: it asks for the source's head
  first, and an absent source raises \<open>ClientError\<close> (404). The copy keeps body and
  metadata.
\<close>

definition bucket_copy :: "string \<Rightarrow> string \<Rightarrow> s3 \<Rightarrow> (py_error + unit) \<times> s3" where
  "bucket_copy src dst st =
     (case map_of (objects st) src of
        None \<Rightarrow> (Inl ClientError, st)
      | Some ob \<Rightarrow>
          (Inr (), st\<lparr>objects := AList.update dst (ob\<lparr>last_modified := clock st\<rparr>) (objects st)\<rparr>))"

text \<open>The bucket without a key.\<close>

definition remove_key :: "string \<Rightarrow> s3 \<Rightarrow> s3" where
  "remove_key key st = st\<lparr>objects := AList.delete key (objects st)\<rparr>"

text \<open>
  \<open>s3_resource.Object(bucket, key).delete()\<close>: deleting an absent key is not an error.
  The client validates its parameters first: a key must have at least one character, and
  the empty key raises \<open>ParamValidationError\<close> with nothing sent. Of the calls of the
  flow only this one can see an empty key (\<open>move_s3_file\<close> called with \<open>""\<close>): the
  other keys are fixed names or file names longer than 5 characters.
\<close>

definition delete_object :: "string \<Rightarrow> s3 \<Rightarrow> (py_error + unit) \<times> s3" where
  "delete_object key st =
     (if key = [] then (Inl ParamValidationError, st) else (Inr (), remove_key key st))"

text \<open>\<open>s3.Object(bucket, key).metadata\<close>: loads the object's head, \<open>ClientError\<close> when absent.\<close>

definition object_metadata :: "string \<Rightarrow> s3 \<Rightarrow> py_error + (string \<times> string) list" where
  "object_metadata key st =
     (case map_of (objects st) key of
        None \<Rightarrow> Inl ClientError
      | Some ob \<Rightarrow> Inr (metadata ob))"

text \<open>\<open>s3_object.copy_from(CopySource, Metadata, MetadataDirective="REPLACE")\<close>.\<close>

definition copy_from_replace ::
  "string \<Rightarrow> string \<Rightarrow> (string \<times> string) list \<Rightarrow> s3 \<Rightarrow> (py_error + unit) \<times> s3" where
  "copy_from_replace dst src md st =
     (case map_of (objects st) src of
        None \<Rightarrow> (Inl NoSuchKey, st)
      | Some ob \<Rightarrow>
          (Inr (), st\<lparr>objects := AList.update dst
                     \<lparr>body = body ob, last_modified = clock st, metadata = md\<rparr> (objects st)\<rparr>))"

text \<open>
  \<open>paginator.paginate(Bucket, Prefix)\<close> of \<open>list_objects_v2\<close>: pages of at most 1000
  entries (key, \<open>LastModified\<close>) whose key starts with the prefix. With no such key the
  service answers one page that has no \<open>"Contents"\<close> entry: \<open>None\<close> here.
\<close>

function pages_of :: "'a list \<Rightarrow> 'a list list" where
  "pages_of xs = (if xs = [] then [] else take 1000 xs # pages_of (drop 1000 xs))"
  by pat_completeness auto
termination
  by (relation "measure length") auto

definition matching :: "string \<Rightarrow> s3 \<Rightarrow> (string \<times> int) list" where
  "matching pfx st =
     map (\<lambda>(k, ob). (k, last_modified ob))
       (filter (\<lambda>(k, ob). prefix pfx k) (AList.clearjunk (objects st)))"

definition paginate :: "string \<Rightarrow> s3 \<Rightarrow> (string \<times> int) list option list" where
  "paginate pfx st =
     (let ms = matching pfx st
      in if ms = [] then [None] else map Some (pages_of ms))"

subsection \<open>aws_lists_prep_for_map\<close>

text \<open>
  \<^verbatim>\<open>for i in range(0, len(file_l), list_size): yield file_l[i : i + list_size]\<close>
\<close>

definition chunks :: "'a list \<Rightarrow> int \<Rightarrow> py_error + 'a list list" where
  "chunks file_l list_size =
     (case py_range0 (length file_l) list_size of
        Inl e \<Rightarrow> Inl e
      | Inr is \<Rightarrow> Inr (map (\<lambda>i. py_slice i (nat list_size) file_l) is))"

definition aws_lists_prep_for_map :: "'a list list \<Rightarrow> int \<Rightarrow> int \<Rightarrow> py_error + 'a list list" where
  "aws_lists_prep_for_map file_l list_size total_processed =
     (let file_l_consolidated = concat file_l;
          file_l_consolidated = py_slice_to total_processed file_l_consolidated
      in chunks file_l_consolidated list_size)"

subsection \<open>Listings: aws_year_files, aws_all_year_files\<close>

text \<open>
  The loop over the pages; \<open>page["Contents"]\<close> raises \<open>KeyError\<close> on a page without that
  entry. The keys are collected in a set and returned sorted.
\<close>

fun year_pages :: "(string \<times> int) list option list \<Rightarrow> string set \<Rightarrow> py_error + string set" where
  "year_pages [] aws_file_set = Inr aws_file_set"
| "year_pages (page # pages) aws_file_set =
     (case page of
        None \<Rightarrow> Inl KeyError
      | Some list_all_keys \<Rightarrow> year_pages pages (aws_file_set \<union> set (map fst list_all_keys)))"

definition aws_year_files :: "string \<Rightarrow> s3 \<Rightarrow> py_error + string list" where
  "aws_year_files year st =
     (case year_pages (paginate year st) {} of
        Inl e \<Rightarrow> Inl e
      | Inr aws_file_set \<Rightarrow> Inr (sorted_list_of_set aws_file_set))"

text \<open>
  \<open>aws_all_year_files\<close> keeps the keys modified after (\<open>time_less_than\<close>) or before
  \<open>now - min_old minutes\<close>; \<open>now\<close> is the bucket's clock.
\<close>

fun all_year_pages ::
  "int \<Rightarrow> bool \<Rightarrow> int \<Rightarrow> (string \<times> int) list option list \<Rightarrow> string set \<Rightarrow> py_error + string set" where
  "all_year_pages min_old time_less_than now [] aws_file_set = Inr aws_file_set"
| "all_year_pages min_old time_less_than now (page # pages) aws_file_set =
     (case page of
        None \<Rightarrow> Inl KeyError
      | Some list_all_keys \<Rightarrow>
          (let file_l =
                 (if time_less_than
                  then map fst (filter (\<lambda>x. snd x > now - 60 * min_old) list_all_keys)
                  else map fst (filter (\<lambda>x. snd x < now - 60 * min_old) list_all_keys))
           in all_year_pages min_old time_less_than now pages (aws_file_set \<union> set file_l)))"

definition aws_all_year_files :: "string \<Rightarrow> int \<Rightarrow> bool \<Rightarrow> s3 \<Rightarrow> py_error + string list" where
  "aws_all_year_files year min_old time_less_than st =
     (case all_year_pages min_old time_less_than (clock st) (paginate year st) {} of
        Inl e \<Rightarrow> Inl e
      | Inr aws_file_set \<Rightarrow> Inr (sorted_list_of_set aws_file_set))"

subsection \<open>Parsed CSV data\<close>

text \<open>
  pandas and the clock's formatting are not code of the repository; the functions the
  flow calls are parameters. A frame is the list of its columns, each a label and its
  cells; a cell is its text, or \<open>None\<close> for a missing value (NaN).
  \<^item> \<open>read_csv_str\<close>: \<open>pd.read_csv(data, dtype={...: str})\<close> of the two checks;
  \<^item> \<open>read_csv\<close>: \<open>pd.read_csv(data)\<close> of the yearly average;
  \<^item> \<open>mean_text\<close>, \<open>unique_text\<close>: the text an f-string gives \<open>df[c].mean()\<close> and
    \<open>df[c].unique()\<close>, for the columns that carry the label \<open>c\<close>;
  \<^item> \<open>strftime\<close>: the timestamp written into the metadata.
\<close>

type_synonym cell = "string option"
type_synonym frame = "(string \<times> cell list) list"

record extern =
  read_csv_str :: "string \<Rightarrow> py_error + frame"
  read_csv :: "string \<Rightarrow> py_error + frame"
  mean_text :: "cell list list \<Rightarrow> py_error + string"
  unique_text :: "cell list list \<Rightarrow> py_error + string"
  strftime :: "int \<Rightarrow> string"

text \<open>\<open>records.columns = records.columns.str.strip()\<close>\<close>

definition strip_columns :: "frame \<Rightarrow> frame" where
  "strip_columns records = map (\<lambda>(label, col). (strip label, col)) records"

text \<open>
  \<open>records[label]\<close>: \<open>KeyError\<close> when no column has the label; otherwise the columns that
  have it (one column is a Series, several are a DataFrame).
\<close>

definition getitem :: "frame \<Rightarrow> string \<Rightarrow> py_error + cell list list" where
  "getitem records label =
     (case filter (\<lambda>(l, col). l = label) records of
        [] \<Rightarrow> Inl KeyError
      | c # cs \<Rightarrow> Inr (map snd (c # cs)))"

text \<open>\<open>column.unique()\<close>: the distinct values in order of first appearance; NaN is one value.\<close>

definition unique :: "cell list \<Rightarrow> cell list" where
  "unique col = rev (remdups (rev col))"

text \<open>
  \<open>column_unique_values_check\<close>: a DataFrame has no \<open>unique\<close> (\<open>AttributeError\<close>);
  \<open>value_l[0]\<close> of a column without rows is an \<open>IndexError\<close>.
\<close>

definition column_unique_values_check :: "cell list list \<Rightarrow> py_error + cell" where
  "column_unique_values_check column =
     (case column of
        [col] \<Rightarrow>
          (let value_l = unique col
           in if length value_l > 1 then Inr (Some ''X'')
              else (case value_l of [] \<Rightarrow> Inl IndexError | v # vs \<Rightarrow> Inr v))
      | _ \<Rightarrow> Inl AttributeError)"

definition unique_of :: "frame \<Rightarrow> string \<Rightarrow> py_error + cell" where
  "unique_of records label =
     (case getitem records label of
        Inl e \<Rightarrow> Inl e
      | Inr column \<Rightarrow> column_unique_values_check column)"

text \<open>The body of the \<open>try\<close> of \<open>unique_values_spatial_check\<close>.\<close>

definition unique_values_try :: "extern \<Rightarrow> string \<Rightarrow> string \<Rightarrow> py_error + string option" where
  "unique_values_try env filename data =
     (case read_csv_str env data of
        Inl e \<Rightarrow> Inl e
      | Inr records0 \<Rightarrow>
     (let records = strip_columns records0 in
      case unique_of records ''STATION'' of
        Inl e \<Rightarrow> Inl e
      | Inr site_number \<Rightarrow>
     (case unique_of records ''LATITUDE'' of
        Inl e \<Rightarrow> Inl e
      | Inr latitude \<Rightarrow>
     (case unique_of records ''LONGITUDE'' of
        Inl e \<Rightarrow> Inl e
      | Inr longitude \<Rightarrow>
     (case unique_of records ''ELEVATION'' of
        Inl e \<Rightarrow> Inl e
      | Inr elevation \<Rightarrow>
          (if site_number = Some ''X'' then Inr (Some filename)
           else if latitude = Some ''X'' then Inr (Some filename)
           else if longitude = Some ''X'' then Inr (Some filename)
           else if elevation = Some ''X'' then Inr (Some filename)
           else Inr None))))))"

text \<open>
  \<open>unique_values_spatial_check\<close>: the file's name when a spatial column has more than one
  value, \<open>"X"\<close> on \<open>EmptyDataError\<close> and \<open>ParserError\<close>, \<open>None\<close> otherwise; any other
  exception leaves the function.
\<close>

definition unique_values_spatial_check :: "extern \<Rightarrow> string \<Rightarrow> string \<Rightarrow> py_error + string option" where
  "unique_values_spatial_check env filename data =
     (case unique_values_try env filename data of
        Inl e \<Rightarrow>
          (if e = EmptyDataError then Inr (Some ''X'')
           else if e = ParserError then Inr (Some ''X'')
           else Inl e)
      | Inr r \<Rightarrow> Inr r)"

text \<open>
  \<open>records[c].eq(records[c].iloc[0]).all()\<close>: every cell equals the first row's, and a
  missing value equals nothing. \<open>iloc[0]\<close> of a column without rows is an \<open>IndexError\<close>;
  on a DataFrame \<open>all()\<close> gives one truth value per column and \<open>not\<close> raises \<open>ValueError\<close>.
\<close>

definition cell_eq :: "cell \<Rightarrow> cell \<Rightarrow> bool" where
  "cell_eq c v = (case c of None \<Rightarrow> False | Some s \<Rightarrow> v = Some s)"

definition all_eq_first :: "frame \<Rightarrow> string \<Rightarrow> py_error + bool" where
  "all_eq_first records label =
     (case getitem records label of
        Inl e \<Rightarrow> Inl e
      | Inr column \<Rightarrow>
          (case column of
             [col] \<Rightarrow>
               (case col of
                  [] \<Rightarrow> Inl IndexError
                | v # vs \<Rightarrow> Inr (list_all (\<lambda>c. cell_eq c v) col))
           | _ \<Rightarrow> Inl ValueError))"

text \<open>\<open>csv_clean_spatial_check\<close>: the \<open>or\<close> chain stops at the first column that disagrees.\<close>

definition csv_clean_spatial_check :: "extern \<Rightarrow> string \<Rightarrow> string \<Rightarrow> py_error + string option" where
  "csv_clean_spatial_check env filename data =
     (case read_csv_str env data of
        Inl e \<Rightarrow> Inl e
      | Inr records0 \<Rightarrow>
     (let records = strip_columns records0 in
      case all_eq_first records ''STATION'' of
        Inl e \<Rightarrow> Inl e
      | Inr station_ok \<Rightarrow>
          if station_ok then
     (case all_eq_first records ''LATITUDE'' of
        Inl e \<Rightarrow> Inl e
      | Inr latitude_ok \<Rightarrow>
          if latitude_ok then
     (case all_eq_first records ''LONGITUDE'' of
        Inl e \<Rightarrow> Inl e
      | Inr longitude_ok \<Rightarrow>
          if longitude_ok then
     (case all_eq_first records ''ELEVATION'' of
        Inl e \<Rightarrow> Inl e
      | Inr elevation_ok \<Rightarrow>
          if elevation_ok then Inr None else Inr (Some filename))
          else Inr (Some filename))
          else Inr (Some filename))
          else Inr (Some filename)))"

subsection \<open>move_s3_file\<close>

text \<open>
  The \<open>_data_error/\<close> marker is written first. \<open>year, file_ = filename.split("/")\<close>
  raises \<open>ValueError\<close> unless there are exactly two pieces; the handler swallows "not
  enough values to unpack" and raises every other \<open>ValueError\<close> again. The delete after
  the \<open>try\<close> runs when the \<open>try\<close> statement did not raise, and is the last statement:
  its exception is the function's. \<open>filename\<close> may be \<open>None\<close> (\<open>None.split\<close> is an
  \<open>AttributeError\<close>).
\<close>

definition error_key :: "string \<Rightarrow> string \<Rightarrow> string \<Rightarrow> string" where
  "error_key year number note = ''_data_error/'' @ year @ ''-'' @ number @ ''-'' @ note @ ''.csv''"

definition move_s3_file :: "string option \<Rightarrow> string \<Rightarrow> s3 \<Rightarrow> (py_error + unit) \<times> s3" where
  "move_s3_file filename note st =
     (let st1 = put_object ''_data_error/'' [] st
      in case filename of
           None \<Rightarrow> (Inl AttributeError, st1)
         | Some fn \<Rightarrow>
             (case split_on CHR ''/'' fn of
                [] \<Rightarrow> delete_object fn st1
              | [p] \<Rightarrow> delete_object fn st1
              | [year, file_] \<Rightarrow>
                  (case split_on CHR ''.'' file_ of
                     [] \<Rightarrow> (Inl IndexError, st1)
                   | number # rest \<Rightarrow>
                       (case bucket_copy fn (error_key year number note) st1 of
                          (Inl e, st2) \<Rightarrow> (Inl e, st2)
                        | (Inr u, st2) \<Rightarrow> delete_object fn st2))
              | year # file_ # others \<Rightarrow> (Inl ValueError, st1)))"

subsection \<open>process_year_files\<close>

text \<open>A local variable of a Python function: unbound until its first assignment.\<close>

datatype 'a local = Unbound | Bound 'a

text \<open>
  The metadata touch of a file that passed both checks: load the metadata, set
  \<open>lastmodified\<close>, copy the object onto itself with the metadata replaced.
\<close>

definition touch :: "extern \<Rightarrow> string \<Rightarrow> s3 \<Rightarrow> (py_error + unit) \<times> s3" where
  "touch env filename st =
     (case object_metadata filename st of
        Inl e \<Rightarrow> (Inl e, st)
      | Inr md \<Rightarrow>
          copy_from_replace filename filename
            (AList.update ''lastmodified'' (strftime env (clock st)) md) st)"

text \<open>
  The body of the \<open>try\<close> for one file name. It returns the exception or normal end, the
  variable \<open>spatial_errors\<close> as the body leaves it, and the bucket.
\<close>

definition file_try ::
  "extern \<Rightarrow> string \<Rightarrow> string option local \<Rightarrow> s3 \<Rightarrow> (py_error + unit) \<times> string option local \<times> s3" where
  "file_try env filename spatial_errors st =
     (case get_object filename st of
        (Inl e, st1) \<Rightarrow> (Inl e, spatial_errors, st1)
      | (Inr data, st1) \<Rightarrow>
     (case unique_values_spatial_check env filename data of
        Inl e \<Rightarrow> (Inl e, spatial_errors, st1)
      | Inr non_unique_spatial \<Rightarrow>
          if truthy non_unique_spatial then
            (case move_s3_file non_unique_spatial ''non_unique_spatial'' st1 of
               (r, st2) \<Rightarrow> (r, spatial_errors, st2))
          else
     (case get_object filename st1 of
        (Inl e, st2) \<Rightarrow> (Inl e, spatial_errors, st2)
      | (Inr data2, st2) \<Rightarrow>
     (case csv_clean_spatial_check env filename data2 of
        Inl e \<Rightarrow> (Inl e, spatial_errors, st2)
      | Inr se \<Rightarrow>
          if truthy se then
            (case move_s3_file se ''missing_spatial'' st2 of
               (r, st3) \<Rightarrow> (r, Bound se, st3))
          else if \<not> truthy non_unique_spatial \<and> \<not> truthy se then
            (case touch env filename st2 of
               (r, st3) \<Rightarrow> (r, Bound se, st3))
          else (Inr (), Bound se, st2)))))"

text \<open>
  The two handlers call \<open>move_s3_file(spatial_errors, ...)\<close>: reading the variable while
  it is unbound raises \<open>UnboundLocalError\<close>.
\<close>

definition file_except ::
  "string \<Rightarrow> string option local \<Rightarrow> s3 \<Rightarrow> (py_error + unit) \<times> string option local \<times> s3" where
  "file_except note spatial_errors st =
     (case spatial_errors of
        Unbound \<Rightarrow> (Inl UnboundLocalError, spatial_errors, st)
      | Bound v \<Rightarrow>
          (case move_s3_file v note st of
             (r, st1) \<Rightarrow> (r, spatial_errors, st1)))"

definition process_file ::
  "extern \<Rightarrow> string \<Rightarrow> string option local \<Rightarrow> s3 \<Rightarrow> (py_error + unit) \<times> string option local \<times> s3" where
  "process_file env filename spatial_errors st =
     (case file_try env filename spatial_errors st of
        (Inl e, se, st1) \<Rightarrow>
          (if e = EmptyDataError then file_except ''empty_data_error'' se st1
           else if e = NoSuchKey then file_except ''no_such_key_error'' se st1
           else (Inl e, se, st1))
      | (Inr u, se, st1) \<Rightarrow> (Inr u, se, st1))"

text \<open>The loop over \<open>files_l\<close>; an exception that leaves an iteration ends the task.\<close>

fun process_files ::
  "extern \<Rightarrow> string list \<Rightarrow> string option local \<Rightarrow> s3 \<Rightarrow> (py_error + unit) \<times> s3" where
  "process_files env [] spatial_errors st = (Inr (), st)"
| "process_files env (filename # files_l) spatial_errors st =
     (if length filename \<le> 5 then process_files env files_l spatial_errors st
      else if contains ''year_average'' filename \<or> contains ''_data_error'' filename
      then process_files env files_l spatial_errors st
      else (case process_file env filename spatial_errors st of
              (Inl e, se, st1) \<Rightarrow> (Inl e, st1)
            | (Inr u, se, st1) \<Rightarrow> process_files env files_l se st1))"

definition process_year_files :: "extern \<Rightarrow> string list \<Rightarrow> s3 \<Rightarrow> (py_error + unit) \<times> s3" where
  "process_year_files env files_l st = process_files env files_l Unbound st"

subsection \<open>calculate_year_csv\<close>

definition columns :: string where
  "columns = ''SITE_NUMBER,LATITUDE,LONGITUDE,ELEVATION,AVERAGE_TEMP,DEWP,STP,MIN,MAX,PRCP'' @ [CHR 0x0A]"

definition average_key :: "string \<Rightarrow> string" where
  "average_key year_folder = ''year_average/avg_'' @ year_folder @ ''.csv''"

definition mean_of :: "extern \<Rightarrow> frame \<Rightarrow> string \<Rightarrow> py_error + string" where
  "mean_of env df1 label =
     (case getitem df1 label of
        Inl e \<Rightarrow> Inl e
      | Inr column \<Rightarrow> mean_text env column)"

definition unique_text_of :: "extern \<Rightarrow> frame \<Rightarrow> string \<Rightarrow> py_error + string" where
  "unique_text_of env df1 label =
     (case getitem df1 label of
        Inl e \<Rightarrow> Inl e
      | Inr column \<Rightarrow> unique_text env column)"

text \<open>
  The statements of the \<open>try\<close> after \<open>get_object\<close>: the six means, then the four unique
  values, then the row: the spatial fields first, the means after them.
\<close>

definition site_row :: "extern \<Rightarrow> string \<Rightarrow> py_error + string" where
  "site_row env data =
     (case read_csv env data of
        Inl e \<Rightarrow> Inl e
      | Inr df1 \<Rightarrow>
     (case map_err (mean_of env df1) [''TEMP'', ''DEWP'', ''STP'', ''MIN'', ''MAX'', ''PRCP''] of
        Inl e \<Rightarrow> Inl e
      | Inr averages \<Rightarrow>
     (case map_err (unique_text_of env df1) [''STATION'', ''LATITUDE'', ''LONGITUDE'', ''ELEVATION''] of
        Inl e \<Rightarrow> Inl e
      | Inr spatial \<Rightarrow> Inr (join '','' (spatial @ averages) @ [CHR 0x0A]))))"

text \<open>
  The loop over the sites: \<open>EmptyDataError\<close> and \<open>ParserError\<close> skip the site, every
  other exception (of \<open>get_object\<close> too) leaves the task.
\<close>

fun site_rows :: "extern \<Rightarrow> string list \<Rightarrow> string \<Rightarrow> s3 \<Rightarrow> (py_error + string) \<times> s3" where
  "site_rows env [] content st = (Inr content, st)"
| "site_rows env (site # files_l) content st =
     (case get_object site st of
        (Inl e, st1) \<Rightarrow> (Inl e, st1)
      | (Inr data, st1) \<Rightarrow>
          (case site_row env data of
             Inl e \<Rightarrow>
               (if e = EmptyDataError \<or> e = ParserError
                then site_rows env files_l content st1
                else (Inl e, st1))
           | Inr row \<Rightarrow> site_rows env files_l (content @ row) st1))"

text \<open>The task after the skip test: list the year, build the content, write the summary.\<close>

definition calculate_year_run :: "extern \<Rightarrow> string \<Rightarrow> s3 \<Rightarrow> (py_error + unit) \<times> s3" where
  "calculate_year_run env year_folder st =
     (case aws_year_files year_folder st of
        Inl e \<Rightarrow> (Inl e, st)
      | Inr listed \<Rightarrow>
          (let files_l = filter (\<lambda>x. length x > 6) listed
           in case site_rows env files_l columns st of
                (Inl e, st1) \<Rightarrow> (Inl e, st1)
              | (Inr content, st1) \<Rightarrow>
                  (Inr (), put_object (average_key year_folder) content st1)))"

definition calculate_year_csv ::
  "extern \<Rightarrow> string \<Rightarrow> string list \<Rightarrow> bool \<Rightarrow> s3 \<Rightarrow> (py_error + unit) \<times> s3" where
  "calculate_year_csv env year_folder finished_files calc_all st =
     (if calc_all then calculate_year_run env year_folder st
      else if average_key year_folder \<in> set finished_files then (Inr (), st)
      else calculate_year_run env year_folder st)"

text \<open>
  The row a site adds to the summary, read off the bucket: none when the site has no
  object or its row is not computed.
\<close>

definition site_row_of :: "extern \<Rightarrow> s3 \<Rightarrow> string \<Rightarrow> string option" where
  "site_row_of env st site =
     (case map_of (objects st) site of
        None \<Rightarrow> None
      | Some ob \<Rightarrow> (case site_row env (body ob) of Inl e \<Rightarrow> None | Inr row \<Rightarrow> Some row))"

subsection \<open>The flow: the summaries that count as done\<close>

text \<open>
  \<open>calc_files_done\<close> is the listing of \<open>year_average\<close> by \<open>aws_all_year_files\<close>, with the
  run's \<open>MINUTES_OLD\<close> and \<open>TIME_LESS_THAN\<close>; each year's \<open>calculate_year_csv\<close> gets it
  as \<open>finished_files\<close>, and does not run when the listing failed.
\<close>

definition t5_calc_complete ::
  "extern \<Rightarrow> string \<Rightarrow> int \<Rightarrow> bool \<Rightarrow> bool \<Rightarrow> s3 \<Rightarrow> (py_error + unit) \<times> s3" where
  "t5_calc_complete env year min_old time_less_than calc_all st =
     (case aws_all_year_files ''year_average'' min_old time_less_than st of
        Inl e \<Rightarrow> (Inl e, st)
      | Inr calc_files_done \<Rightarrow> calculate_year_csv env year calc_files_done calc_all st)"

subsection \<open>Sample files\<close>

text \<open>
  Station-year files used as concrete inputs, with what pandas makes of each: a complete
  file of two days, a file whose latitude changes precision, two files without the
  \<open>ELEVATION\<close> column (one of them with two station ids), a file without \<open>TEMP\<close>, a
  file whose third line has six fields under a header of four (\<open>ParserError\<close>: "Expected
  4 fields in line 3, saw 6"), and the empty file (\<open>EmptyDataError\<close>). The tables list
  these inputs and no others: any other input gets \<open>Unlisted\<close>, which stands for no
  answer of pandas, and no statement below gives the tables such an input.
\<close>

definition csv_full :: string where
  "csv_full = ''STATION,LATITUDE,LONGITUDE,ELEVATION,TEMP,DEWP,STP,MIN,MAX,PRCP\<newline>1001099999,70.93,-8.66,9.0,50,40,30,45,55,0\<newline>1001099999,70.93,-8.66,9.0,60,42,32,47,57,0\<newline>''"

definition csv_drift :: string where
  "csv_drift = ''STATION,LATITUDE,LONGITUDE,ELEVATION\<newline>1001099999,70.9,-8.66,9.0\<newline>1001099999,70.93,-8.66,9.0\<newline>''"

definition csv_no_elevation :: string where
  "csv_no_elevation = ''STATION,LATITUDE,LONGITUDE\<newline>1001099999,70.93,-8.66\<newline>1001099999,70.93,-8.66\<newline>''"

definition csv_two_stations_no_elevation :: string where
  "csv_two_stations_no_elevation = ''STATION,LATITUDE,LONGITUDE\<newline>1001099999,70.93,-8.66\<newline>1001499999,70.93,-8.66\<newline>''"

definition csv_ragged :: string where
  "csv_ragged = ''STATION,LATITUDE,LONGITUDE,ELEVATION\<newline>1001099999,70.93,-8.66,9.0\<newline>1001099999,70.93,-8.66,9.0,12,13\<newline>''"

definition csv_no_temp :: string where
  "csv_no_temp = ''STATION,LATITUDE,LONGITUDE,ELEVATION,DEWP,STP,MIN,MAX,PRCP\<newline>1001099999,70.93,-8.66,9.0,40,30,45,55,0\<newline>''"

definition sample_read_csv :: "string \<Rightarrow> py_error + frame" where
  "sample_read_csv data =
     (if data = [] then Inl EmptyDataError
      else if data = csv_full then
        Inr [(''STATION'', [Some ''1001099999'', Some ''1001099999'']),
             (''LATITUDE'', [Some ''70.93'', Some ''70.93'']),
             (''LONGITUDE'', [Some ''-8.66'', Some ''-8.66'']),
             (''ELEVATION'', [Some ''9.0'', Some ''9.0'']),
             (''TEMP'', [Some ''50'', Some ''60'']),
             (''DEWP'', [Some ''40'', Some ''42'']),
             (''STP'', [Some ''30'', Some ''32'']),
             (''MIN'', [Some ''45'', Some ''47'']),
             (''MAX'', [Some ''55'', Some ''57'']),
             (''PRCP'', [Some ''0'', Some ''0''])]
      else if data = csv_drift then
        Inr [(''STATION'', [Some ''1001099999'', Some ''1001099999'']),
             (''LATITUDE'', [Some ''70.9'', Some ''70.93'']),
             (''LONGITUDE'', [Some ''-8.66'', Some ''-8.66'']),
             (''ELEVATION'', [Some ''9.0'', Some ''9.0''])]
      else if data = csv_no_elevation then
        Inr [(''STATION'', [Some ''1001099999'', Some ''1001099999'']),
             (''LATITUDE'', [Some ''70.93'', Some ''70.93'']),
             (''LONGITUDE'', [Some ''-8.66'', Some ''-8.66''])]
      else if data = csv_two_stations_no_elevation then
        Inr [(''STATION'', [Some ''1001099999'', Some ''1001499999'']),
             (''LATITUDE'', [Some ''70.93'', Some ''70.93'']),
             (''LONGITUDE'', [Some ''-8.66'', Some ''-8.66''])]
      else if data = csv_no_temp then
        Inr [(''STATION'', [Some ''1001099999'']),
             (''LATITUDE'', [Some ''70.93'']),
             (''LONGITUDE'', [Some ''-8.66'']),
             (''ELEVATION'', [Some ''9.0'']),
             (''DEWP'', [Some ''40'']),
             (''STP'', [Some ''30'']),
             (''MIN'', [Some ''45'']),
             (''MAX'', [Some ''55'']),
             (''PRCP'', [Some ''0''])]
      else if data = csv_ragged then Inl ParserError
      else Inl Unlisted)"

text \<open>The means and the unique values of the columns of \<open>csv_full\<close>, as an f-string prints them.\<close>

definition sample_mean_text :: "cell list list \<Rightarrow> py_error + string" where
  "sample_mean_text column =
     (if column = [[Some ''50'', Some ''60'']] then Inr ''55.0''
      else if column = [[Some ''40'', Some ''42'']] then Inr ''41.0''
      else if column = [[Some ''30'', Some ''32'']] then Inr ''31.0''
      else if column = [[Some ''45'', Some ''47'']] then Inr ''46.0''
      else if column = [[Some ''55'', Some ''57'']] then Inr ''56.0''
      else if column = [[Some ''0'', Some ''0'']] then Inr ''0.0''
      else Inl Unlisted)"

definition sample_unique_text :: "cell list list \<Rightarrow> py_error + string" where
  "sample_unique_text column =
     (if column = [[Some ''1001099999'', Some ''1001099999'']] then Inr ''[1001099999]''
      else if column = [[Some ''70.93'', Some ''70.93'']] then Inr ''[70.93]''
      else if column = [[Some ''-8.66'', Some ''-8.66'']] then Inr ''[-8.66]''
      else if column = [[Some ''9.0'', Some ''9.0'']] then Inr ''[9.]''
      else Inl Unlisted)"

definition sample_extern :: extern where
  "sample_extern =
     \<lparr>read_csv_str = sample_read_csv,
      read_csv = sample_read_csv,
      mean_text = sample_mean_text,
      unique_text = sample_unique_text,
      strftime = (\<lambda>t. ''Thu, 01 Jan 1970 00:16:40 UTC'')\<rparr>"

definition sample_object :: "string \<Rightarrow> int \<Rightarrow> s3_object" where
  "sample_object data t = \<lparr>body = data, last_modified = t, metadata = []\<rparr>"

definition sample_bucket :: "(string \<times> s3_object) list \<Rightarrow> s3" where
  "sample_bucket objs = \<lparr>objects = objs, clock = 1000, gets = []\<rparr>"

section \<open>Properties\<close>

subsection \<open>Batching\<close>

lemma concat_slices:
  "concat (map (\<lambda>k. take c (drop (k * c) xs)) [0 ..< m]) = take (m * c) xs"
proof (induction m)
  case 0
  show ?case by simp
next
  case (Suc m)
  have "take (m * c) xs @ take c (drop (m * c) xs) = take (m * c + c) xs"
    by (simp add: take_add)
  with Suc show ?case by (simp add: add.commute)
qed

lemma ceil_cover: "0 < c \<Longrightarrow> n \<le> ((n + c - 1) div c) * (c::nat)"
proof -
  assume c: "0 < c"
  have "n + c - 1 = ((n + c - 1) div c) * c + (n + c - 1) mod c" by simp
  moreover have "(n + c - 1) mod c < c" using c by simp
  ultimately show ?thesis by linarith
qed

lemma ceil_tight: "0 < c \<Longrightarrow> 0 < n \<Longrightarrow> ((n + c - 1) div c - 1) * (c::nat) < n"
proof -
  assume c: "0 < c" and n: "0 < n"
  let ?m = "(n + c - 1) div c"
  have "?m * c \<le> n + c - 1" by simp
  moreover have "1 \<le> ?m" using c n by (simp add: Suc_leI div_greater_zero_iff)
  then obtain k where "?m = Suc k" by (cases ?m) simp_all
  then have "(?m - 1) * c + c = ?m * c" by simp
  ultimately show ?thesis using c n by linarith
qed

lemma chunks_pos:
  assumes "1 \<le> C"
  shows "chunks xs C =
    Inr (map (\<lambda>k. take (nat C) (drop (k * nat C) xs)) [0 ..< (length xs + nat C - 1) div nat C])"
  using assms by (simp add: chunks_def py_range0_def py_slice_def comp_def)

lemma chunks_concat:
  assumes "1 \<le> C" and "chunks xs C = Inr chs"
  shows "concat chs = xs"
proof -
  have c: "0 < nat C" using assms(1) by simp
  have "chs = map (\<lambda>k. take (nat C) (drop (k * nat C) xs)) [0 ..< (length xs + nat C - 1) div nat C]"
    using assms chunks_pos [of C xs] by simp
  then have "concat chs = take (((length xs + nat C - 1) div nat C) * nat C) xs"
    by (simp only: concat_slices)
  with ceil_cover [OF c, of "length xs"] show ?thesis by simp
qed

lemma chunks_lengths:
  assumes "1 \<le> C" and "chunks xs C = Inr chs"
  shows "\<forall>i. Suc i < length chs \<longrightarrow> length (chs ! i) = nat C"
    and "chs \<noteq> [] \<longrightarrow> 1 \<le> length (last chs) \<and> length (last chs) \<le> nat C"
proof -
  let ?c = "nat C"
  let ?n = "length xs"
  let ?m = "(?n + ?c - 1) div ?c"
  have c: "0 < ?c" using assms(1) by simp
  have chs: "chs = map (\<lambda>k. take ?c (drop (k * ?c) xs)) [0 ..< ?m]"
    using assms chunks_pos [of C xs] by simp
  have len: "length chs = ?m" by (simp add: chs)
  show "\<forall>i. Suc i < length chs \<longrightarrow> length (chs ! i) = nat C"
  proof (intro allI impI)
    fix i assume i: "Suc i < length chs"
    then have m: "0 < ?m" and im: "Suc i \<le> ?m - 1" using len by linarith+
    have n: "0 < ?n" using m c by (cases "?n = 0") simp_all
    have "Suc i * ?c \<le> (?m - 1) * ?c" using im by (rule mult_le_mono1)
    also have "\<dots> < ?n" using ceil_tight [OF c n] .
    finally have "i * ?c + ?c < ?n" by (simp add: add.commute)
    moreover have "chs ! i = take ?c (drop (i * ?c) xs)" using i len by (simp add: chs)
    ultimately show "length (chs ! i) = nat C" by simp
  qed
  show "chs \<noteq> [] \<longrightarrow> 1 \<le> length (last chs) \<and> length (last chs) \<le> nat C"
  proof
    assume ne: "chs \<noteq> []"
    then have "0 < length chs" by simp
    then have m: "0 < ?m" using len by linarith
    have n: "0 < ?n" using m c by (cases "?n = 0") simp_all
    have "last chs = chs ! (?m - 1)" using ne len by (simp add: last_conv_nth)
    also have "\<dots> = take ?c (drop ((?m - 1) * ?c) xs)" using m by (simp add: chs)
    finally have "length (last chs) = min ?c (?n - (?m - 1) * ?c)" by (simp add: min.commute)
    moreover have "1 \<le> ?n - (?m - 1) * ?c" using ceil_tight [OF c n] by linarith
    moreover have "1 \<le> ?c" using c by linarith
    ultimately show "1 \<le> length (last chs) \<and> length (last chs) \<le> nat C" by simp
  qed
qed

text \<open>
  Claim C7. For every list of key lists, every chunk size \<open>C \<ge> 1\<close> and every maximum
  \<open>M\<close> (a count), \<open>aws_lists_prep_for_map\<close> returns chunks whose concatenation is the first
  \<open>M\<close> keys of the flattened lists, in order; every chunk but the last has exactly \<open>C\<close>
  keys and the last one has between 1 and \<open>C\<close>. In particular five keys with size 2 and
  maximum 5 give \<open>[[a,b],[c,d],[e]]\<close>.
\<close>

theorem batch_is_truncated_flattening:
  assumes "1 \<le> C"
  shows "(\<exists>chs. aws_lists_prep_for_map keyLists C (int M) = Inr chs
            \<and> concat chs = take M (concat keyLists)
            \<and> (\<forall>i. Suc i < length chs \<longrightarrow> length (chs ! i) = nat C)
            \<and> (chs \<noteq> [] \<longrightarrow> 1 \<le> length (last chs) \<and> length (last chs) \<le> nat C))
       \<and> aws_lists_prep_for_map [[a, b, c, d, e]] 2 5 = Inr [[a, b], [c, d], [e]]"
proof
  let ?xs = "take M (concat keyLists)"
  obtain chs where chs: "chunks ?xs C = Inr chs"
    using chunks_pos [OF assms(1)] by blast
  have run: "aws_lists_prep_for_map keyLists C (int M) = Inr chs"
    using chs by (simp add: aws_lists_prep_for_map_def py_slice_to_def)
  show "\<exists>chs. aws_lists_prep_for_map keyLists C (int M) = Inr chs
            \<and> concat chs = take M (concat keyLists)
            \<and> (\<forall>i. Suc i < length chs \<longrightarrow> length (chs ! i) = nat C)
            \<and> (chs \<noteq> [] \<longrightarrow> 1 \<le> length (last chs) \<and> length (last chs) \<le> nat C)"
    using run chunks_concat [OF assms(1) chs] chunks_lengths [OF assms(1) chs] by blast
  show "aws_lists_prep_for_map [[a, b, c, d, e]] 2 5 = Inr [[a, b], [c, d], [e]]"
    by (simp add: aws_lists_prep_for_map_def py_slice_to_def chunks_def py_range0_def py_slice_def
        upt_rec [of 0] upt_rec [of 1] upt_rec [of 2])
qed

theorem batch_is_truncated_flattening_witness:
  "(1::int) \<le> 2
   \<and> aws_lists_prep_for_map [[1::nat, 2], [], [3, 4]] 2 3 = Inr [[1, 2], [3]]"
proof -
  have h: "(1::int) \<le> 2" by simp
  from batch_is_truncated_flattening [OF h, of "[[1::nat, 2], [], [3, 4]]" 3, THEN conjunct1]
  obtain chs where r: "aws_lists_prep_for_map [[1::nat, 2], [], [3, 4]] 2 (int 3) = Inr chs"
      and c: "concat chs = take 3 (concat [[1::nat, 2], [], [3, 4]])"
    by blast
  have "aws_lists_prep_for_map [[1::nat, 2], [], [3, 4]] 2 3 = Inr [[1, 2], [3]]"
    by (simp add: aws_lists_prep_for_map_def py_slice_to_def chunks_def py_range0_def py_slice_def
        upt_rec [of 0] upt_rec [of 1] upt_rec [of 2])
  with h r show ?thesis by simp
qed

subsection \<open>The bucket and move_s3_file\<close>

lemma map_of_put_object:
  "map_of (objects (put_object k b st)) k' =
     (if k' = k then Some \<lparr>body = b, last_modified = clock st, metadata = []\<rparr>
      else map_of (objects st) k')"
  by (simp add: put_object_def update_conv')

lemma map_of_remove_key:
  "map_of (objects (remove_key k st)) k' = (if k' = k then None else map_of (objects st) k')"
  by (simp add: remove_key_def delete_conv')

lemma split_on_length: "length (split_on sep s) = Suc (count_list s sep)"
  by (induction s) (auto split: list.splits)

lemma split_on_first: "\<exists>ps. split_on sep s = takeWhile (\<lambda>x. x \<noteq> sep) s # ps"
  by (induction s) (auto split: list.splits)

lemma split_on_two:
  assumes "split_on sep s = [a, b]"
  shows "s = a @ sep # b \<and> sep \<notin> set a \<and> sep \<notin> set b"
  using assms
proof (induction s arbitrary: a)
  case Nil
  then show ?case by simp
next
  case (Cons c cs)
  show ?case
  proof (cases "c = sep")
    case True
    with Cons.prems have a: "a = []" and b: "split_on sep cs = [b]" by simp_all
    from b have "count_list cs sep = 0" using split_on_length [of sep cs] by simp
    then have nb: "sep \<notin> set cs" by (simp add: count_list_0_iff)
    moreover have "b = cs" using b nb split_on_first [of sep cs] by (auto simp: takeWhile_eq_all_conv)
    ultimately show ?thesis using True a by simp
  next
    case False
    with Cons.prems obtain p where p: "split_on sep cs = [p, b]" and a: "a = c # p"
      by (auto split: list.splits)
    from Cons.IH [OF p] False a show ?thesis by auto
  qed
qed


lemma move_no_separator:
  assumes "count_list key (CHR ''/'') = 0" and "key \<noteq> []"
  shows "move_s3_file (Some key) note st = (Inr (), remove_key key (put_object ''_data_error/'' [] st))"
proof -
  have "length (split_on CHR ''/'' key) = 1" using assms(1) by (simp add: split_on_length)
  then obtain p where "split_on CHR ''/'' key = [p]"
    by (cases "split_on CHR ''/'' key") auto
  then show ?thesis using assms(2) by (simp add: move_s3_file_def delete_object_def)
qed

lemma move_empty_key:
  "move_s3_file (Some []) note st = (Inl ParamValidationError, put_object ''_data_error/'' [] st)"
  by (simp add: move_s3_file_def delete_object_def)

lemma move_many_separators:
  assumes "2 \<le> count_list key (CHR ''/'')"
  shows "move_s3_file (Some key) note st = (Inl ValueError, put_object ''_data_error/'' [] st)"
proof -
  have "3 \<le> length (split_on CHR ''/'' key)" using assms by (simp add: split_on_length)
  then obtain a b c ds where "split_on CHR ''/'' key = a # b # c # ds"
    by (cases "split_on CHR ''/'' key" rule: list.exhaust; simp; (rename_tac x xs, case_tac xs; simp; rename_tac y ys, case_tac ys; simp))
  then show ?thesis by (simp add: move_s3_file_def)
qed


lemma sep_split_unique:
  "a @ c # b = a' @ c # b' \<Longrightarrow> c \<notin> set a \<Longrightarrow> c \<notin> set a' \<Longrightarrow> a = a' \<and> b = b'"
proof (induction a arbitrary: a')
  case Nil
  then show ?case by (cases a') auto
next
  case (Cons x xs)
  then show ?case by (cases a') auto
qed

lemma error_key_differs:
  assumes k: "split_on (CHR ''/'') k = [year, fname]"
  shows "error_key year (takeWhile (\<lambda>c. c \<noteq> CHR ''.'') fname) r \<noteq> k"
proof
  let ?number = "takeWhile (\<lambda>c. c \<noteq> CHR ''.'') fname"
  define pre where "pre = ''_data_error''"
  define tl where "tl = ''-'' @ r @ ''.csv''"
  assume eq: "error_key year ?number r = k"
  from split_on_two [OF k] have kk: "k = year @ CHR ''/'' # fname" and ny: "CHR ''/'' \<notin> set year"
    by simp_all
  have e: "pre @ CHR ''/'' # (year @ ''-'' @ ?number @ tl) = year @ CHR ''/'' # fname"
    using eq kk by (simp add: error_key_def pre_def tl_def)
  have np: "CHR ''/'' \<notin> set pre" by (simp add: pre_def)
  from sep_split_unique [OF e np ny]
  have y: "pre = year" and f: "year @ ''-'' @ ?number @ tl = fname" by simp_all
  have nd: "\<And>c. c \<in> set ((pre @ ''-'') @ ?number) \<Longrightarrow> c \<noteq> CHR ''.''"
    by (auto simp: pre_def dest: set_takeWhileD)
  have "fname = ((pre @ ''-'') @ ?number) @ tl" using f y by simp
  then have "?number = takeWhile (\<lambda>c. c \<noteq> CHR ''.'') (((pre @ ''-'') @ ?number) @ tl)"
    by simp
  also have "\<dots> = ((pre @ ''-'') @ ?number) @ takeWhile (\<lambda>c. c \<noteq> CHR ''.'') tl"
    using nd by (rule takeWhile_append2)
  finally have "length ?number = length (((pre @ ''-'') @ ?number) @ takeWhile (\<lambda>c. c \<noteq> CHR ''.'') tl)"
    by simp
  then show False by simp
qed


lemma distinct_count_one: "distinct xs \<Longrightarrow> x \<in> set xs \<Longrightarrow> count_list xs x = 1"
  by (induction xs) auto

lemma listed_once:
  assumes "map_of al k = Some v"
  shows "count_list (map fst (AList.clearjunk al)) k = 1"
proof -
  have "map_of (AList.clearjunk al) k = Some v" using assms by (simp add: map_of_clearjunk)
  then have "(k, v) \<in> set (AList.clearjunk al)" by (rule map_of_SomeD)
  then have "k \<in> set (map fst (AList.clearjunk al))" by force
  moreover have "distinct (map fst (AList.clearjunk al))" by (rule distinct_clearjunk)
  ultimately show ?thesis by (rule distinct_count_one [rotated])
qed

lemma clock_put_object: "clock (put_object k b st) = clock st"
  by (simp add: put_object_def)

lemma move_year_id:
  assumes k: "split_on (CHR ''/'') k = [year, fname]"
      and ob: "map_of (objects (put_object ''_data_error/'' [] st)) k = Some ob"
  shows "move_s3_file (Some k) r st =
     (Inr (), remove_key k
        ((put_object ''_data_error/'' [] st)
           \<lparr>objects := AList.update (error_key year (takeWhile (\<lambda>c. c \<noteq> CHR ''.'') fname) r)
              (ob\<lparr>last_modified := clock st\<rparr>)
              (objects (put_object ''_data_error/'' [] st))\<rparr>))"
proof -
  obtain ps where n: "split_on (CHR ''.'') fname = takeWhile (\<lambda>c. c \<noteq> CHR ''.'') fname # ps"
    using split_on_first by blast
  have ne: "k \<noteq> []" using k by auto
  show ?thesis
    unfolding move_s3_file_def Let_def bucket_copy_def delete_object_def
    by (simp add: k n ob clock_put_object ne)
qed

lemma move_absent:
  assumes k: "split_on (CHR ''/'') k = [year, fname]"
      and ob: "map_of (objects (put_object ''_data_error/'' [] st)) k = None"
  shows "move_s3_file (Some k) r st = (Inl ClientError, put_object ''_data_error/'' [] st)"
proof -
  obtain ps where n: "split_on (CHR ''.'') fname = takeWhile (\<lambda>c. c \<noteq> CHR ''.'') fname # ps"
    using split_on_first by blast
  show ?thesis
    unfolding move_s3_file_def Let_def bucket_copy_def
    by (simp add: k n ob)
qed

text \<open>
  Claim C2, as the code has it. For every key \<open>k = year/id\<close> (one separator) that is in
  the bucket and is not the marker \<open>_data_error/\<close>, and every reason \<open>r\<close>:
  \<open>move_s3_file\<close> returns normally; afterwards \<open>k\<close> is gone and the object
  \<open>_data_error/{year}-{id}-{r}.csv\<close> (\<open>id\<close>: the trailing segment up to its first dot)
  is listed exactly once and holds what \<open>k\<close> held. A second call on the now absent key
  raises \<open>ClientError\<close> from the copy; all it has done by then is to write the marker
  again.
\<close>

theorem quarantine_moves_then_raises:
  assumes k: "split_on (CHR ''/'') k = [year, fname]"
      and ob: "map_of (objects st) k = Some ob"
      and nm: "k \<noteq> ''_data_error/''"
  shows "\<exists>st1. move_s3_file (Some k) r st = (Inr (), st1)
        \<and> map_of (objects st1) k = None
        \<and> map_of (objects st1) (error_key year (takeWhile (\<lambda>c. c \<noteq> CHR ''.'') fname) r)
            = Some (ob\<lparr>last_modified := clock st\<rparr>)
        \<and> count_list (map fst (AList.clearjunk (objects st1)))
              (error_key year (takeWhile (\<lambda>c. c \<noteq> CHR ''.'') fname) r) = 1
        \<and> move_s3_file (Some k) r st1 = (Inl ClientError, put_object ''_data_error/'' [] st1)"
proof -
  let ?dst = "error_key year (takeWhile (\<lambda>c. c \<noteq> CHR ''.'') fname) r"
  let ?st0 = "put_object ''_data_error/'' [] st"
  let ?st1 = "remove_key k (?st0\<lparr>objects := AList.update ?dst (ob\<lparr>last_modified := clock st\<rparr>) (objects ?st0)\<rparr>)"
  have ob0: "map_of (objects ?st0) k = Some ob" using ob nm by (simp add: map_of_put_object)
  have run: "move_s3_file (Some k) r st = (Inr (), ?st1)" by (rule move_year_id [OF k ob0])
  have ne: "?dst \<noteq> k" by (rule error_key_differs [OF k])
  have gone: "map_of (objects ?st1) k = None" by (simp add: map_of_remove_key)
  have there: "map_of (objects ?st1) ?dst = Some (ob\<lparr>last_modified := clock st\<rparr>)"
    using ne by (simp add: map_of_remove_key update_conv')
  have once: "count_list (map fst (AList.clearjunk (objects ?st1))) ?dst = 1"
    by (rule listed_once [OF there])
  have "map_of (objects (put_object ''_data_error/'' [] ?st1)) k = None"
    using nm gone by (simp only: map_of_put_object if_False)
  then have again: "move_s3_file (Some k) r ?st1 = (Inl ClientError, put_object ''_data_error/'' [] ?st1)"
    by (rule move_absent [OF k])
  from run gone there once again show ?thesis by blast
qed


theorem quarantine_moves_then_raises_witness:
  "split_on (CHR ''/'') ''1929/01001099999.csv'' = [''1929'', ''01001099999.csv'']
   \<and> map_of (objects \<lparr>objects = [(''1929/01001099999.csv'', \<lparr>body = ''STATION'', last_modified = 3, metadata = []\<rparr>)],
                        clock = 7, gets = []\<rparr>) ''1929/01001099999.csv''
       = Some \<lparr>body = ''STATION'', last_modified = 3, metadata = []\<rparr>
   \<and> ''1929/01001099999.csv'' \<noteq> ''_data_error/''
   \<and> (\<exists>st1. move_s3_file (Some ''1929/01001099999.csv'') ''non_unique_spatial''
                \<lparr>objects = [(''1929/01001099999.csv'', \<lparr>body = ''STATION'', last_modified = 3, metadata = []\<rparr>)],
                 clock = 7, gets = []\<rparr> = (Inr (), st1)
        \<and> map_of (objects st1) ''1929/01001099999.csv'' = None
        \<and> map_of (objects st1) ''_data_error/1929-01001099999-non_unique_spatial.csv''
            = Some \<lparr>body = ''STATION'', last_modified = 7, metadata = []\<rparr>
        \<and> move_s3_file (Some ''1929/01001099999.csv'') ''non_unique_spatial'' st1
            = (Inl ClientError, put_object ''_data_error/'' [] st1))"
proof -
  let ?k = "''1929/01001099999.csv''"
  let ?ob = "\<lparr>body = ''STATION'', last_modified = 3, metadata = []\<rparr>"
  let ?st = "\<lparr>objects = [(?k, ?ob)], clock = 7, gets = []\<rparr>"
  have h1: "split_on (CHR ''/'') ?k = [''1929'', ''01001099999.csv'']" by simp
  have h2: "map_of (objects ?st) ?k = Some ?ob" by simp
  have h3: "?k \<noteq> ''_data_error/''" by simp
  have d: "error_key ''1929'' (takeWhile (\<lambda>c. c \<noteq> CHR ''.'') ''01001099999.csv'') ''non_unique_spatial''
           = ''_data_error/1929-01001099999-non_unique_spatial.csv''"
    by (simp add: error_key_def)
  from quarantine_moves_then_raises [OF h1 h2 h3, of "''non_unique_spatial''"]
  obtain st1 where
    "move_s3_file (Some ?k) ''non_unique_spatial'' ?st = (Inr (), st1)"
    "map_of (objects st1) ?k = None"
    "map_of (objects st1) ''_data_error/1929-01001099999-non_unique_spatial.csv'' = Some (?ob\<lparr>last_modified := clock ?st\<rparr>)"
    "move_s3_file (Some ?k) ''non_unique_spatial'' st1 = (Inl ClientError, put_object ''_data_error/'' [] st1)"
    unfolding d by blast
  then show ?thesis using h1 h2 h3 by auto
qed

text \<open>
  The claim C2 as stated fails: the second call on the same key raises.
\<close>

theorem quarantine_twice_counterexample:
  "fst (move_s3_file (Some ''1929/01001099999.csv'') ''non_unique_spatial''
        (snd (move_s3_file (Some ''1929/01001099999.csv'') ''non_unique_spatial''
           \<lparr>objects = [(''1929/01001099999.csv'', \<lparr>body = ''STATION'', last_modified = 3, metadata = []\<rparr>)],
            clock = 7, gets = []\<rparr>)))
   = Inl ClientError"
  by (simp add: move_s3_file_def bucket_copy_def put_object_def delete_object_def remove_key_def
      error_key_def)

text \<open>
  Claim C5, as the code has it. For a key without a separator that is not the empty
  string, \<open>move_s3_file\<close> does not raise and the key is gone afterwards. For a key with
  two or more separators it raises \<open>ValueError\<close> ("too many values to unpack" is raised
  again by the handler) and the object under the key stays as it was. For the empty
  string, which no object can have as its key, the delete raises
  \<open>ParamValidationError\<close>.
\<close>

theorem quarantine_malformed_key:
  "(count_list key (CHR ''/'') = 0 \<and> key \<noteq> [] \<longrightarrow>
      fst (move_s3_file (Some key) note st) = Inr ()
      \<and> map_of (objects (snd (move_s3_file (Some key) note st))) key = None)
   \<and> (2 \<le> count_list key (CHR ''/'') \<longrightarrow>
      fst (move_s3_file (Some key) note st) = Inl ValueError
      \<and> map_of (objects (snd (move_s3_file (Some key) note st))) key = map_of (objects st) key)
   \<and> fst (move_s3_file (Some []) note st) = Inl ParamValidationError"
proof (intro conjI impI)
  assume "count_list key (CHR ''/'') = 0 \<and> key \<noteq> []"
  then have r: "move_s3_file (Some key) note st = (Inr (), remove_key key (put_object ''_data_error/'' [] st))"
    by (simp add: move_no_separator)
  show "fst (move_s3_file (Some key) note st) = Inr ()" by (simp add: r)
  show "map_of (objects (snd (move_s3_file (Some key) note st))) key = None"
    by (simp add: r map_of_remove_key)
next
  assume c: "2 \<le> count_list key (CHR ''/'')"
  then have r: "move_s3_file (Some key) note st = (Inl ValueError, put_object ''_data_error/'' [] st)"
    by (rule move_many_separators)
  have "key \<noteq> ''_data_error/''" using c by auto
  then show "map_of (objects (snd (move_s3_file (Some key) note st))) key = map_of (objects st) key"
    by (simp add: r map_of_put_object)
  show "fst (move_s3_file (Some key) note st) = Inl ValueError" by (simp add: r)
next
  show "fst (move_s3_file (Some []) note st) = Inl ParamValidationError"
    by (simp add: move_empty_key)
qed

theorem quarantine_malformed_key_witness:
  "count_list ''orphan.csv'' (CHR ''/'') = 0
   \<and> ''orphan.csv'' \<noteq> []
   \<and> fst (move_s3_file (Some ''orphan.csv'') ''missing_spatial''
        \<lparr>objects = [(''orphan.csv'', \<lparr>body = ''STATION'', last_modified = 3, metadata = []\<rparr>)], clock = 7, gets = []\<rparr>) = Inr ()
   \<and> map_of (objects (snd (move_s3_file (Some ''orphan.csv'') ''missing_spatial''
        \<lparr>objects = [(''orphan.csv'', \<lparr>body = ''STATION'', last_modified = 3, metadata = []\<rparr>)], clock = 7, gets = []\<rparr>)))
        ''orphan.csv'' = None
   \<and> 2 \<le> count_list ''1929/extra/01001.csv'' (CHR ''/'')
   \<and> fst (move_s3_file (Some ''1929/extra/01001.csv'') ''missing_spatial''
        \<lparr>objects = [(''1929/extra/01001.csv'', \<lparr>body = ''STATION'', last_modified = 3, metadata = []\<rparr>)], clock = 7, gets = []\<rparr>)
       = Inl ValueError
   \<and> map_of (objects (snd (move_s3_file (Some ''1929/extra/01001.csv'') ''missing_spatial''
        \<lparr>objects = [(''1929/extra/01001.csv'', \<lparr>body = ''STATION'', last_modified = 3, metadata = []\<rparr>)], clock = 7, gets = []\<rparr>)))
        ''1929/extra/01001.csv'' = Some \<lparr>body = ''STATION'', last_modified = 3, metadata = []\<rparr>"
proof -
  have a: "count_list ''orphan.csv'' (CHR ''/'') = 0 \<and> ''orphan.csv'' \<noteq> []" by simp
  have b: "2 \<le> count_list ''1929/extra/01001.csv'' (CHR ''/'')" by simp
  note t1 = quarantine_malformed_key [of "''orphan.csv''" "''missing_spatial''"
      "\<lparr>objects = [(''orphan.csv'', \<lparr>body = ''STATION'', last_modified = 3, metadata = []\<rparr>)], clock = 7, gets = []\<rparr>",
      THEN conjunct1, THEN mp, OF a]
  note t2 = quarantine_malformed_key [of "''1929/extra/01001.csv''" "''missing_spatial''"
      "\<lparr>objects = [(''1929/extra/01001.csv'', \<lparr>body = ''STATION'', last_modified = 3, metadata = []\<rparr>)], clock = 7, gets = []\<rparr>",
      THEN conjunct2, THEN conjunct1, THEN mp, OF b]
  have c: "map_of (objects \<lparr>objects = [(''1929/extra/01001.csv'', \<lparr>body = ''STATION'', last_modified = 3, metadata = []\<rparr>)], clock = 7, gets = []\<rparr>)
      ''1929/extra/01001.csv'' = Some \<lparr>body = ''STATION'', last_modified = 3, metadata = []\<rparr>" by simp
  show ?thesis using a b t1 t2 c by (simp only: simp_thms)
qed

text \<open>
  The claim C5 as stated fails for a key with more than one separator: the call raises
  and the source object is still there.
\<close>

theorem quarantine_deep_key_counterexample:
  "move_s3_file (Some ''1929/extra/01001.csv'') ''missing_spatial''
        \<lparr>objects = [(''1929/extra/01001.csv'', \<lparr>body = ''STATION'', last_modified = 3, metadata = []\<rparr>)], clock = 7, gets = []\<rparr>
   = (Inl ValueError,
        \<lparr>objects = [(''1929/extra/01001.csv'', \<lparr>body = ''STATION'', last_modified = 3, metadata = []\<rparr>),
                    (''_data_error/'', \<lparr>body = [], last_modified = 7, metadata = []\<rparr>)], clock = 7, gets = []\<rparr>)"
  by (simp add: move_s3_file_def put_object_def)

subsection \<open>Listings\<close>

declare pages_of.simps [simp del]

lemma pages_of_Nil: "pages_of [] = []"
  by (simp add: pages_of.simps)

lemma concat_pages_of: "concat (pages_of xs) = xs"
proof (induction xs rule: pages_of.induct)
  case (1 xs)
  show ?case
  proof (cases "xs = []")
    case True
    then show ?thesis by (simp add: pages_of_Nil)
  next
    case False
    then have "pages_of xs = take 1000 xs # pages_of (drop 1000 xs)"
      by (subst pages_of.simps) simp
    with 1 False show ?thesis by simp
  qed
qed

lemma year_pages_Some:
  "year_pages (map Some ps) acc = Inr (acc \<union> set (map fst (concat ps)))"
  by (induction ps arbitrary: acc) (auto simp: Un_assoc)

lemma all_year_pages_Some:
  "all_year_pages min_old tlt now (map Some ps) acc =
     Inr (acc \<union> set (map fst (filter (\<lambda>x. if tlt then snd x > now - 60 * min_old
                                              else snd x < now - 60 * min_old) (concat ps))))"
  by (induction ps arbitrary: acc) (auto simp: Un_assoc Let_def)

lemma aws_year_files_eq:
  "aws_year_files year st =
     (if matching year st = [] then Inl KeyError
      else Inr (sorted_list_of_set (set (map fst (matching year st)))))"
  by (simp add: aws_year_files_def paginate_def Let_def year_pages_Some concat_pages_of)

lemma aws_all_year_files_eq:
  "aws_all_year_files year min_old tlt st =
     (if matching year st = [] then Inl KeyError
      else Inr (sorted_list_of_set (set (map fst
             (filter (\<lambda>x. if tlt then snd x > clock st - 60 * min_old
                            else snd x < clock st - 60 * min_old) (matching year st))))))"
  by (simp add: aws_all_year_files_def paginate_def Let_def all_year_pages_Some concat_pages_of)

lemma matching_keys:
  "set (map fst (matching pfx st)) = {k. prefix pfx k \<and> map_of (objects st) k \<noteq> None}"
proof -
  have "set (map fst (matching pfx st)) = {k \<in> fst ` set (AList.clearjunk (objects st)). prefix pfx k}"
    by (force simp: matching_def image_iff split: prod.splits)
  also have "fst ` set (AList.clearjunk (objects st)) = dom (map_of (objects st))"
    by (simp add: dom_map_of_conv_image_fst [symmetric] map_of_clearjunk)
  finally show ?thesis by (auto simp: dom_def)
qed

lemma matching_empty_iff:
  "matching pfx st = [] \<longleftrightarrow> (\<forall>k. prefix pfx k \<longrightarrow> map_of (objects st) k = None)"
proof -
  have "matching pfx st = [] \<longleftrightarrow> set (map fst (matching pfx st)) = {}" by simp
  also have "\<dots> \<longleftrightarrow> (\<forall>k. prefix pfx k \<longrightarrow> map_of (objects st) k = None)"
    unfolding matching_keys by auto
  finally show ?thesis .
qed

text \<open>
  Claim C10. When no object of the bucket has a key that starts with the prefix, both
  listing functions raise \<open>KeyError\<close> at \<open>page["Contents"]\<close> instead of returning an
  empty list; with at least one such object both return a list.
\<close>

theorem listing_needs_an_object:
  "((\<forall>k. prefix pfx k \<longrightarrow> map_of (objects st) k = None) \<longrightarrow>
       aws_year_files pfx st = Inl KeyError
       \<and> aws_all_year_files pfx min_old time_less_than st = Inl KeyError)
   \<and> ((\<exists>k. prefix pfx k \<and> map_of (objects st) k \<noteq> None) \<longrightarrow>
       (\<exists>ks. aws_year_files pfx st = Inr ks)
       \<and> (\<exists>ks. aws_all_year_files pfx min_old time_less_than st = Inr ks))"
proof (intro conjI impI)
  assume "\<forall>k. prefix pfx k \<longrightarrow> map_of (objects st) k = None"
  then have m: "matching pfx st = []" by (simp add: matching_empty_iff)
  show "aws_year_files pfx st = Inl KeyError" by (simp add: aws_year_files_eq m)
  show "aws_all_year_files pfx min_old time_less_than st = Inl KeyError"
    by (simp add: aws_all_year_files_eq m)
next
  assume "\<exists>k. prefix pfx k \<and> map_of (objects st) k \<noteq> None"
  then have m: "matching pfx st \<noteq> []" by (simp add: matching_empty_iff)
  show "\<exists>ks. aws_year_files pfx st = Inr ks" by (simp add: aws_year_files_eq m)
  show "\<exists>ks. aws_all_year_files pfx min_old time_less_than st = Inr ks"
    by (simp add: aws_all_year_files_eq m)
qed

theorem listing_needs_an_object_witness:
  "aws_year_files ''1930''
      \<lparr>objects = [(''1929/01001099999.csv'', \<lparr>body = ''STATION'', last_modified = 3, metadata = []\<rparr>)],
       clock = 7, gets = []\<rparr> = Inl KeyError
   \<and> aws_all_year_files ''year_average'' 1 True
      \<lparr>objects = [(''1929/01001099999.csv'', \<lparr>body = ''STATION'', last_modified = 3, metadata = []\<rparr>)],
       clock = 7, gets = []\<rparr> = Inl KeyError
   \<and> aws_year_files ''1929''
      \<lparr>objects = [(''1929/01001099999.csv'', \<lparr>body = ''STATION'', last_modified = 3, metadata = []\<rparr>)],
       clock = 7, gets = []\<rparr> = Inr [''1929/01001099999.csv'']"
proof -
  let ?st = "\<lparr>objects = [(''1929/01001099999.csv'', \<lparr>body = ''STATION'', last_modified = 3, metadata = []\<rparr>)],
       clock = 7, gets = []\<rparr>"
  have a: "\<forall>k. prefix ''1930'' k \<longrightarrow> map_of (objects ?st) k = None" by auto
  have b: "\<forall>k. prefix ''year_average'' k \<longrightarrow> map_of (objects ?st) k = None" by auto
  have c: "\<exists>k. prefix ''1929'' k \<and> map_of (objects ?st) k \<noteq> None"
    by (rule exI [of _ "''1929/01001099999.csv''"]) simp
  from listing_needs_an_object [of "''1930''" ?st 1 True, THEN conjunct1, THEN mp, OF a]
  have r1: "aws_year_files ''1930'' ?st = Inl KeyError" by simp
  from listing_needs_an_object [of "''year_average''" ?st 1 True, THEN conjunct1, THEN mp, OF b]
  have r2: "aws_all_year_files ''year_average'' 1 True ?st = Inl KeyError" by simp
  from listing_needs_an_object [of "''1929''" ?st 1 True, THEN conjunct2, THEN mp, OF c]
  obtain ks where "aws_year_files ''1929'' ?st = Inr ks" by blast
  moreover have "aws_year_files ''1929'' ?st = Inr [''1929/01001099999.csv'']"
    by (simp add: aws_year_files_eq matching_def)
  ultimately show ?thesis using r1 r2 by simp
qed

subsection \<open>Validation: process_year_files\<close>

lemma get_object_present:
  "map_of (objects st) k = Some ob \<Longrightarrow> get_object k st = (Inr (body ob), st\<lparr>gets := gets st @ [k]\<rparr>)"
  by (simp add: get_object_def)

lemma get_object_absent:
  "map_of (objects st) k = None \<Longrightarrow> get_object k st = (Inl NoSuchKey, st\<lparr>gets := gets st @ [k]\<rparr>)"
  by (simp add: get_object_def)

lemma length_unique: "length (unique col) = card (set col)"
  by (simp add: unique_def length_remdups_card_conv)

lemma unique_Nil_iff: "unique col = [] \<longleftrightarrow> col = []"
  by (simp add: unique_def)

lemma column_check_many:
  "2 \<le> card (set col) \<Longrightarrow> column_unique_values_check [col] = Inr (Some ''X'')"
  by (simp add: column_unique_values_check_def Let_def length_unique)

lemma column_check_rows:
  "col \<noteq> [] \<Longrightarrow> \<exists>v. column_unique_values_check [col] = Inr v"
  by (cases "unique col") (auto simp: column_unique_values_check_def Let_def unique_Nil_iff)

lemma move_errors:
  assumes "fst (move_s3_file f note st) = Inl e"
  shows "e = AttributeError \<or> e = ValueError \<or> e = IndexError \<or> e = ClientError
    \<or> e = ParamValidationError"
  using assms
  by (auto simp: move_s3_file_def Let_def bucket_copy_def delete_object_def
      split: option.splits list.splits prod.splits sum.splits if_splits)


lemma unique_values_non_unique:
  assumes rd: "read_csv_str env data = Inr fr"
      and sta: "getitem (strip_columns fr) ''STATION'' = Inr [sta]"
      and lat: "getitem (strip_columns fr) ''LATITUDE'' = Inr [lat]"
      and lon: "getitem (strip_columns fr) ''LONGITUDE'' = Inr [lon]"
      and ele: "getitem (strip_columns fr) ''ELEVATION'' = Inr [ele]"
      and rows: "length lat = length sta" "length lon = length sta" "length ele = length sta"
      and two: "2 \<le> card (set sta) \<or> 2 \<le> card (set lat) \<or> 2 \<le> card (set lon) \<or> 2 \<le> card (set ele)"
  shows "unique_values_spatial_check env k data = Inr (Some k)"
proof -
  have "sta \<noteq> [] \<or> lat \<noteq> [] \<or> lon \<noteq> [] \<or> ele \<noteq> []" using two by auto
  then have ne: "sta \<noteq> []" "lat \<noteq> []" "lon \<noteq> []" "ele \<noteq> []" using rows by auto
  obtain v1 where v1: "column_unique_values_check [sta] = Inr v1" using column_check_rows [OF ne(1)] by blast
  obtain v2 where v2: "column_unique_values_check [lat] = Inr v2" using column_check_rows [OF ne(2)] by blast
  obtain v3 where v3: "column_unique_values_check [lon] = Inr v3" using column_check_rows [OF ne(3)] by blast
  obtain v4 where v4: "column_unique_values_check [ele] = Inr v4" using column_check_rows [OF ne(4)] by blast
  have x: "v1 = Some ''X'' \<or> v2 = Some ''X'' \<or> v3 = Some ''X'' \<or> v4 = Some ''X''"
    using two v1 v2 v3 v4 column_check_many [of sta] column_check_many [of lat]
      column_check_many [of lon] column_check_many [of ele] by auto
  have "unique_values_try env k data = Inr (Some k)"
    unfolding unique_values_try_def unique_of_def Let_def
    using x by (auto simp add: rd sta lat lon ele v1 v2 v3 v4)
  then show ?thesis by (simp add: unique_values_spatial_check_def)
qed

lemma process_files_step:
  assumes "5 < length k" and "\<not> contains ''year_average'' k" and "\<not> contains ''_data_error'' k"
  shows "process_files env (k # rest) se st =
     (case process_file env k se st of
        (Inl e, se', st1) \<Rightarrow> (Inl e, st1)
      | (Inr u, se', st1) \<Rightarrow> process_files env rest se' st1)"
  using assms by simp

lemma process_file_non_unique:
  assumes ob: "map_of (objects st) k = Some ob"
      and uv: "unique_values_spatial_check env k (body ob) = Inr (Some k)"
      and k: "k \<noteq> []"
  shows "process_file env k se st =
     (fst (move_s3_file (Some k) ''non_unique_spatial'' (st\<lparr>gets := gets st @ [k]\<rparr>)), se,
      snd (move_s3_file (Some k) ''non_unique_spatial'' (st\<lparr>gets := gets st @ [k]\<rparr>)))"
proof -
  let ?m = "move_s3_file (Some k) ''non_unique_spatial'' (st\<lparr>gets := gets st @ [k]\<rparr>)"
  have t: "file_try env k se st = (fst ?m, se, snd ?m)"
    unfolding file_try_def
    using k by (simp add: get_object_present [OF ob] uv split: prod.splits)
  show ?thesis
  proof (cases "fst ?m")
    case (Inl e)
    from move_errors [OF Inl] have "e \<noteq> EmptyDataError" "e \<noteq> NoSuchKey" by auto
    then show ?thesis using Inl by (simp add: process_file_def t)
  next
    case (Inr u)
    then show ?thesis by (simp add: process_file_def t)
  qed
qed

lemma move_year_id_state:
  assumes k: "split_on (CHR ''/'') k = [year, fname]"
      and ob: "map_of (objects st) k = Some ob"
      and nm: "k \<noteq> ''_data_error/''"
  shows "\<exists>st1. move_s3_file (Some k) r st = (Inr (), st1)
        \<and> gets st1 = gets st
        \<and> map_of (objects st1) k = None
        \<and> map_of (objects st1) (error_key year (takeWhile (\<lambda>c. c \<noteq> CHR ''.'') fname) r)
            = Some (ob\<lparr>last_modified := clock st\<rparr>)"
proof -
  let ?dst = "error_key year (takeWhile (\<lambda>c. c \<noteq> CHR ''.'') fname) r"
  let ?st0 = "put_object ''_data_error/'' [] st"
  let ?st1 = "remove_key k (?st0\<lparr>objects := AList.update ?dst (ob\<lparr>last_modified := clock st\<rparr>) (objects ?st0)\<rparr>)"
  have ob0: "map_of (objects ?st0) k = Some ob" using ob nm by (simp add: map_of_put_object)
  have run: "move_s3_file (Some k) r st = (Inr (), ?st1)" by (rule move_year_id [OF k ob0])
  have ne: "?dst \<noteq> k" by (rule error_key_differs [OF k])
  have g: "gets ?st1 = gets st" by (simp add: remove_key_def put_object_def)
  have gone: "map_of (objects ?st1) k = None" by (simp add: map_of_remove_key)
  have there: "map_of (objects ?st1) ?dst = Some (ob\<lparr>last_modified := clock st\<rparr>)"
    using ne by (simp add: map_of_remove_key update_conv')
  from run g gone there show ?thesis by blast
qed

text \<open>
  Claim C8, as the code has it. For every file that parses as CSV, has each of the four
  spatial columns (once, after the labels are stripped) and has two or more distinct
  values in any of them, the file is handed to \<open>move_s3_file\<close> with the reason
  \<open>non_unique_spatial\<close> after a single read: the second check is not run. The batch
  goes on with the next key when the move returns, and ends with the move's exception
  otherwise. For a key of the shape \<open>year/id\<close> the move returns: the key is gone, the
  object \<open>_data_error/{year}-{id}-non_unique_spatial.csv\<close> holds what the file held, and
  the batch goes on.
\<close>

theorem non_unique_spatial_wins:
  assumes "5 < length k" and "\<not> contains ''year_average'' k" and "\<not> contains ''_data_error'' k"
      and ob: "map_of (objects st) k = Some ob"
      and rd: "read_csv_str env (body ob) = Inr fr"
      and sta: "getitem (strip_columns fr) ''STATION'' = Inr [sta]"
      and lat: "getitem (strip_columns fr) ''LATITUDE'' = Inr [lat]"
      and lon: "getitem (strip_columns fr) ''LONGITUDE'' = Inr [lon]"
      and ele: "getitem (strip_columns fr) ''ELEVATION'' = Inr [ele]"
      and rows: "length lat = length sta" "length lon = length sta" "length ele = length sta"
      and two: "2 \<le> card (set sta) \<or> 2 \<le> card (set lat) \<or> 2 \<le> card (set lon) \<or> 2 \<le> card (set ele)"
  shows "process_files env (k # rest) se st =
           (case move_s3_file (Some k) ''non_unique_spatial'' (st\<lparr>gets := gets st @ [k]\<rparr>) of
              (Inl e, st1) \<Rightarrow> (Inl e, st1)
            | (Inr u, st1) \<Rightarrow> process_files env rest se st1)
         \<and> (split_on (CHR ''/'') k = [year, fname] \<longrightarrow>
              (\<exists>st1. process_files env (k # rest) se st = process_files env rest se st1
                 \<and> gets st1 = gets st @ [k]
                 \<and> map_of (objects st1) k = None
                 \<and> map_of (objects st1)
                      (error_key year (takeWhile (\<lambda>c. c \<noteq> CHR ''.'') fname) ''non_unique_spatial'')
                    = Some (ob\<lparr>last_modified := clock st\<rparr>)))"
proof (intro conjI impI)
  have uv: "unique_values_spatial_check env k (body ob) = Inr (Some k)"
    by (rule unique_values_non_unique [OF rd sta lat lon ele rows two])
  have k: "k \<noteq> []" using assms(1) by auto
  show step: "process_files env (k # rest) se st =
           (case move_s3_file (Some k) ''non_unique_spatial'' (st\<lparr>gets := gets st @ [k]\<rparr>) of
              (Inl e, st1) \<Rightarrow> (Inl e, st1)
            | (Inr u, st1) \<Rightarrow> process_files env rest se st1)"
    by (simp only: process_files_step [OF assms(1-3)] process_file_non_unique [OF ob uv k])
       (simp split: prod.splits sum.splits)
  assume shape: "split_on (CHR ''/'') k = [year, fname]"
  let ?st0 = "st\<lparr>gets := gets st @ [k]\<rparr>"
  have nm: "k \<noteq> ''_data_error/''" using assms(3) by auto
  have ob0: "map_of (objects ?st0) k = Some ob" using ob by simp
  from move_year_id_state [OF shape ob0 nm, of "''non_unique_spatial''"]
  obtain st1 where mv: "move_s3_file (Some k) ''non_unique_spatial'' ?st0 = (Inr (), st1)"
      and g: "gets st1 = gets ?st0"
      and gone: "map_of (objects st1) k = None"
      and there: "map_of (objects st1)
                      (error_key year (takeWhile (\<lambda>c. c \<noteq> CHR ''.'') fname) ''non_unique_spatial'')
                    = Some (ob\<lparr>last_modified := clock ?st0\<rparr>)"
    by blast
  have "process_files env (k # rest) se st = process_files env rest se st1"
    unfolding step mv by simp
  moreover have "gets st1 = gets st @ [k]" using g by simp
  moreover have "map_of (objects st1)
                      (error_key year (takeWhile (\<lambda>c. c \<noteq> CHR ''.'') fname) ''non_unique_spatial'')
                    = Some (ob\<lparr>last_modified := clock st\<rparr>)" using there by simp
  ultimately show "\<exists>st1. process_files env (k # rest) se st = process_files env rest se st1
                 \<and> gets st1 = gets st @ [k]
                 \<and> map_of (objects st1) k = None
                 \<and> map_of (objects st1)
                      (error_key year (takeWhile (\<lambda>c. c \<noteq> CHR ''.'') fname) ''non_unique_spatial'')
                    = Some (ob\<lparr>last_modified := clock st\<rparr>)"
    using gone by blast
qed

theorem non_unique_spatial_wins_witness:
  "split_on (CHR ''/'') ''1929/01001099999.csv'' = [''1929'', ''01001099999.csv'']
   \<and> process_files sample_extern [''1929/01001099999.csv''] Unbound
      (sample_bucket [(''1929/01001099999.csv'', sample_object csv_drift 3)])
   = (Inr (),
      \<lparr>objects = [(''_data_error/'', \<lparr>body = [], last_modified = 1000, metadata = []\<rparr>),
                  (''_data_error/1929-01001099999-non_unique_spatial.csv'',
                   \<lparr>body = csv_drift, last_modified = 1000, metadata = []\<rparr>)],
       clock = 1000, gets = [''1929/01001099999.csv'']\<rparr>)
   \<and> map_of (objects (snd (process_files sample_extern [''1929/01001099999.csv''] Unbound
      (sample_bucket [(''1929/01001099999.csv'', sample_object csv_drift 3)]))))
        ''_data_error/1929-01001099999-non_unique_spatial.csv''
      = Some \<lparr>body = csv_drift, last_modified = 1000, metadata = []\<rparr>"
proof -
  let ?k = "''1929/01001099999.csv''"
  let ?st = "sample_bucket [(?k, sample_object csv_drift 3)]"
  let ?fr = "[(''STATION'', [Some ''1001099999'', Some ''1001099999'']),
             (''LATITUDE'', [Some ''70.9'', Some ''70.93'']),
             (''LONGITUDE'', [Some ''-8.66'', Some ''-8.66'']),
             (''ELEVATION'', [Some ''9.0'', Some ''9.0''])]"
  have g: "5 < length ?k" "\<not> contains ''year_average'' ?k" "\<not> contains ''_data_error'' ?k"
    by simp_all
  have ob: "map_of (objects ?st) ?k = Some (sample_object csv_drift 3)"
    by (simp add: sample_bucket_def)
  have rd: "read_csv_str sample_extern (body (sample_object csv_drift 3)) = Inr ?fr"
    by code_simp
  have c1: "getitem (strip_columns ?fr) ''STATION'' = Inr [[Some ''1001099999'', Some ''1001099999'']]"
    by code_simp
  have c2: "getitem (strip_columns ?fr) ''LATITUDE'' = Inr [[Some ''70.9'', Some ''70.93'']]"
    by code_simp
  have c3: "getitem (strip_columns ?fr) ''LONGITUDE'' = Inr [[Some ''-8.66'', Some ''-8.66'']]"
    by code_simp
  have c4: "getitem (strip_columns ?fr) ''ELEVATION'' = Inr [[Some ''9.0'', Some ''9.0'']]"
    by code_simp
  have rows: "length [Some ''70.9'', Some ''70.93''] = length [Some ''1001099999'', Some ''1001099999'']"
    "length [Some ''-8.66'', Some ''-8.66''] = length [Some ''1001099999'', Some ''1001099999'']"
    "length [Some ''9.0'', Some ''9.0''] = length [Some ''1001099999'', Some ''1001099999'']"
    by simp_all
  have two: "2 \<le> card (set [Some ''1001099999'', Some ''1001099999''])
      \<or> 2 \<le> card (set [Some ''70.9'', Some ''70.93''])
      \<or> 2 \<le> card (set [Some ''-8.66'', Some ''-8.66''])
      \<or> 2 \<le> card (set [Some ''9.0'', Some ''9.0''])"
    by simp
  have shape: "split_on (CHR ''/'') ?k = [''1929'', ''01001099999.csv'']" by simp
  note inst = non_unique_spatial_wins [OF g ob rd c1 c2 c3 c4 rows two,
      of "[]" Unbound "''1929''" "''01001099999.csv''"]
  have step: "process_files sample_extern [?k] Unbound ?st =
     (case move_s3_file (Some ?k) ''non_unique_spatial'' (?st\<lparr>gets := gets ?st @ [?k]\<rparr>) of
        (Inl e, st1) \<Rightarrow> (Inl e, st1)
      | (Inr u, st1) \<Rightarrow> process_files sample_extern [] Unbound st1)"
    by (rule inst [THEN conjunct1])
  have run: "(case move_s3_file (Some ?k) ''non_unique_spatial'' (?st\<lparr>gets := gets ?st @ [?k]\<rparr>) of
        (Inl e, st1) \<Rightarrow> (Inl e, st1)
      | (Inr u, st1) \<Rightarrow> process_files sample_extern [] Unbound st1)
    = (Inr (),
      \<lparr>objects = [(''_data_error/'', \<lparr>body = [], last_modified = 1000, metadata = []\<rparr>),
                  (''_data_error/1929-01001099999-non_unique_spatial.csv'',
                   \<lparr>body = csv_drift, last_modified = 1000, metadata = []\<rparr>)],
       clock = 1000, gets = [?k]\<rparr>)"
    by code_simp
  have d: "error_key ''1929'' (takeWhile (\<lambda>c. c \<noteq> CHR ''.'') ''01001099999.csv'') ''non_unique_spatial''
           = ''_data_error/1929-01001099999-non_unique_spatial.csv''"
    by (simp add: error_key_def)
  from inst [THEN conjunct2, THEN mp, OF shape]
  obtain st1 where e: "process_files sample_extern [?k] Unbound ?st = process_files sample_extern [] Unbound st1"
      and m: "map_of (objects st1) ''_data_error/1929-01001099999-non_unique_spatial.csv''
          = Some ((sample_object csv_drift 3)\<lparr>last_modified := clock ?st\<rparr>)"
    unfolding d by blast
  have m': "map_of (objects st1) ''_data_error/1929-01001099999-non_unique_spatial.csv''
      = Some \<lparr>body = csv_drift, last_modified = 1000, metadata = []\<rparr>"
    using m by (simp add: sample_object_def sample_bucket_def)
  have "process_files sample_extern [] Unbound st1 = (Inr (), st1)" by simp
  with e have "process_files sample_extern [?k] Unbound ?st = (Inr (), st1)" by (rule trans)
  then have "snd (process_files sample_extern [?k] Unbound ?st) = st1" by (simp only: snd_conv)
  then have "map_of (objects (snd (process_files sample_extern [?k] Unbound ?st)))
        ''_data_error/1929-01001099999-non_unique_spatial.csv''
      = Some \<lparr>body = csv_drift, last_modified = 1000, metadata = []\<rparr>"
    using m' by (simp only:)
  moreover have "process_files sample_extern [?k] Unbound ?st
   = (Inr (),
      \<lparr>objects = [(''_data_error/'', \<lparr>body = [], last_modified = 1000, metadata = []\<rparr>),
                  (''_data_error/1929-01001099999-non_unique_spatial.csv'',
                   \<lparr>body = csv_drift, last_modified = 1000, metadata = []\<rparr>)],
       clock = 1000, gets = [?k]\<rparr>)"
    by (simp only: step run)
  ultimately show ?thesis using shape by (intro conjI)
qed

text \<open>
  The claim C8 as stated fails when the second check would fail for an absent column: two
  station ids and no \<open>ELEVATION\<close> column give \<open>KeyError\<close>, and the file is not moved.
\<close>

theorem non_unique_spatial_missing_column_counterexample:
  "process_year_files sample_extern [''1929/01001099999.csv'']
      (sample_bucket [(''1929/01001099999.csv'', sample_object csv_two_stations_no_elevation 3)])
   = (Inl KeyError,
      \<lparr>objects = [(''1929/01001099999.csv'', sample_object csv_two_stations_no_elevation 3)],
       clock = 1000, gets = [''1929/01001099999.csv'']\<rparr>)"
  by code_simp

lemma unique_of_errors:
  assumes "unique_of records label = Inl e"
  shows "e = KeyError \<or> e = IndexError \<or> e = AttributeError"
  using assms
  by (auto simp: unique_of_def getitem_def column_unique_values_check_def Let_def
      split: sum.splits list.splits if_splits)

lemma unique_of_missing:
  "getitem records label = Inl KeyError \<Longrightarrow> unique_of records label = Inl KeyError"
  by (simp add: unique_of_def)

lemma unique_values_missing_column:
  assumes rd: "read_csv_str env data = Inr fr"
      and missing: "getitem (strip_columns fr) ''STATION'' = Inl KeyError
          \<or> getitem (strip_columns fr) ''LATITUDE'' = Inl KeyError
          \<or> getitem (strip_columns fr) ''LONGITUDE'' = Inl KeyError
          \<or> getitem (strip_columns fr) ''ELEVATION'' = Inl KeyError"
  shows "\<exists>e. unique_values_spatial_check env k data = Inl e
            \<and> (e = KeyError \<or> e = IndexError \<or> e = AttributeError)"
proof -
  let ?r = "strip_columns fr"
  have m: "unique_of ?r ''STATION'' = Inl KeyError \<or> unique_of ?r ''LATITUDE'' = Inl KeyError
      \<or> unique_of ?r ''LONGITUDE'' = Inl KeyError \<or> unique_of ?r ''ELEVATION'' = Inl KeyError"
    using missing unique_of_missing by blast
  have "\<exists>e. unique_values_try env k data = Inl e \<and> (e = KeyError \<or> e = IndexError \<or> e = AttributeError)"
  proof (cases "unique_of ?r ''STATION''")
    case (Inl e)
    with unique_of_errors [OF Inl] show ?thesis by (simp add: unique_values_try_def rd Let_def)
  next
    case s: (Inr v1)
    show ?thesis
    proof (cases "unique_of ?r ''LATITUDE''")
      case (Inl e)
      with unique_of_errors [OF Inl] s show ?thesis by (simp add: unique_values_try_def rd Let_def)
    next
      case la: (Inr v2)
      show ?thesis
      proof (cases "unique_of ?r ''LONGITUDE''")
        case (Inl e)
        with unique_of_errors [OF Inl] s la show ?thesis by (simp add: unique_values_try_def rd Let_def)
      next
        case lo: (Inr v3)
        show ?thesis
        proof (cases "unique_of ?r ''ELEVATION''")
          case (Inl e)
          with unique_of_errors [OF Inl] s la lo show ?thesis
            by (simp add: unique_values_try_def rd Let_def)
        next
          case (Inr v4)
          with m s la lo show ?thesis by simp
        qed
      qed
    qed
  qed
  then obtain e where e: "unique_values_try env k data = Inl e"
      and k: "e = KeyError \<or> e = IndexError \<or> e = AttributeError" by blast
  from k have "e \<noteq> EmptyDataError" "e \<noteq> ParserError" by auto
  with e have "unique_values_spatial_check env k data = Inl e"
    by (simp add: unique_values_spatial_check_def)
  with k show ?thesis by blast
qed

lemma process_file_check_raises:
  assumes ob: "map_of (objects st) k = Some ob"
      and uv: "unique_values_spatial_check env k (body ob) = Inl e"
      and e: "e \<noteq> EmptyDataError" "e \<noteq> NoSuchKey"
  shows "process_file env k se st = (Inl e, se, st\<lparr>gets := gets st @ [k]\<rparr>)"
  using e by (simp add: process_file_def file_try_def get_object_present [OF ob] uv)

text \<open>
  Claim C1, as the code has it. For every file that parses as CSV but lacks one of the
  four spatial columns, the first check raises: \<open>KeyError\<close> at the absent column, unless
  an earlier column already raised \<open>IndexError\<close> (no rows) or \<open>AttributeError\<close> (a label
  that occurs twice). Nothing catches it: the task ends with that exception after one
  read, no object of the bucket is moved or changed, and the keys after it in the batch
  are not processed.
\<close>

theorem missing_column_aborts_batch:
  assumes "5 < length k" and "\<not> contains ''year_average'' k" and "\<not> contains ''_data_error'' k"
      and ob: "map_of (objects st) k = Some ob"
      and rd: "read_csv_str env (body ob) = Inr fr"
      and missing: "getitem (strip_columns fr) ''STATION'' = Inl KeyError
          \<or> getitem (strip_columns fr) ''LATITUDE'' = Inl KeyError
          \<or> getitem (strip_columns fr) ''LONGITUDE'' = Inl KeyError
          \<or> getitem (strip_columns fr) ''ELEVATION'' = Inl KeyError"
  shows "\<exists>e. process_files env (k # rest) se st = (Inl e, st\<lparr>gets := gets st @ [k]\<rparr>)
            \<and> (e = KeyError \<or> e = IndexError \<or> e = AttributeError)"
proof -
  from unique_values_missing_column [OF rd missing]
  obtain e where uv: "unique_values_spatial_check env k (body ob) = Inl e"
      and k: "e = KeyError \<or> e = IndexError \<or> e = AttributeError" by blast
  from k have ne: "e \<noteq> EmptyDataError" "e \<noteq> NoSuchKey" by auto
  have "process_files env (k # rest) se st = (Inl e, st\<lparr>gets := gets st @ [k]\<rparr>)"
    by (simp only: process_files_step [OF assms(1-3)] process_file_check_raises [OF ob uv ne])
       simp
  with k show ?thesis by blast
qed

theorem missing_column_aborts_batch_witness:
  "process_files sample_extern [''1929/01001099999.csv'', ''1929/01001499999.csv''] Unbound
      (sample_bucket [(''1929/01001099999.csv'', sample_object csv_no_elevation 3),
                      (''1929/01001499999.csv'', sample_object csv_full 4)])
   = (Inl KeyError,
      \<lparr>objects = [(''1929/01001099999.csv'', sample_object csv_no_elevation 3),
                  (''1929/01001499999.csv'', sample_object csv_full 4)],
       clock = 1000, gets = [''1929/01001099999.csv'']\<rparr>)"
proof -
  let ?k = "''1929/01001099999.csv''"
  let ?st = "sample_bucket [(?k, sample_object csv_no_elevation 3),
                      (''1929/01001499999.csv'', sample_object csv_full 4)]"
  let ?fr = "[(''STATION'', [Some ''1001099999'', Some ''1001099999'']),
             (''LATITUDE'', [Some ''70.93'', Some ''70.93'']),
             (''LONGITUDE'', [Some ''-8.66'', Some ''-8.66''])]"
  have g: "5 < length ?k" "\<not> contains ''year_average'' ?k" "\<not> contains ''_data_error'' ?k"
    by simp_all
  have ob: "map_of (objects ?st) ?k = Some (sample_object csv_no_elevation 3)"
    by (simp add: sample_bucket_def)
  have rd: "read_csv_str sample_extern (body (sample_object csv_no_elevation 3)) = Inr ?fr"
    by code_simp
  have "getitem (strip_columns ?fr) ''ELEVATION'' = Inl KeyError" by code_simp
  then have missing: "getitem (strip_columns ?fr) ''STATION'' = Inl KeyError
          \<or> getitem (strip_columns ?fr) ''LATITUDE'' = Inl KeyError
          \<or> getitem (strip_columns ?fr) ''LONGITUDE'' = Inl KeyError
          \<or> getitem (strip_columns ?fr) ''ELEVATION'' = Inl KeyError" by (simp only: simp_thms)
  from missing_column_aborts_batch [OF g ob rd missing, of "[''1929/01001499999.csv'']" Unbound]
  obtain e where r: "process_files sample_extern [?k, ''1929/01001499999.csv''] Unbound ?st
        = (Inl e, ?st\<lparr>gets := gets ?st @ [?k]\<rparr>)" by blast
  have "fst (process_files sample_extern [?k, ''1929/01001499999.csv''] Unbound ?st) = Inl KeyError"
    by code_simp
  with r have "e = KeyError" by simp
  with r show ?thesis by (simp add: sample_bucket_def)
qed

text \<open>
  The claim C1 as stated fails: a file without the \<open>ELEVATION\<close> column, otherwise
  consistent, ends the batch with \<open>KeyError\<close>; it is still in place and nothing was written
  under \<open>_data_error/\<close>.
\<close>

theorem missing_column_not_quarantined_counterexample:
  "process_year_files sample_extern [''1929/01001099999.csv'']
      (sample_bucket [(''1929/01001099999.csv'', sample_object csv_no_elevation 3)])
   = (Inl KeyError,
      \<lparr>objects = [(''1929/01001099999.csv'', sample_object csv_no_elevation 3)],
       clock = 1000, gets = [''1929/01001099999.csv'']\<rparr>)"
  by code_simp

lemma unreadable_file_stays:
  assumes "5 < length k" and "\<not> contains ''year_average'' k" and "\<not> contains ''_data_error'' k"
      and ob: "map_of (objects st) k = Some ob"
      and rd: "read_csv_str env (body ob) = Inl e"
      and e: "e = EmptyDataError \<or> e = ParserError"
  shows "process_files env (k # rest) se st =
     process_files env rest se
       (remove_key ''X'' (put_object ''_data_error/'' [] (st\<lparr>gets := gets st @ [k]\<rparr>)))"
proof -
  have uv: "unique_values_spatial_check env k (body ob) = Inr (Some ''X'')"
    using e by (auto simp: unique_values_spatial_check_def unique_values_try_def rd)
  have mv: "move_s3_file (Some ''X'') ''non_unique_spatial'' (st\<lparr>gets := gets st @ [k]\<rparr>)
      = (Inr (), remove_key ''X'' (put_object ''_data_error/'' [] (st\<lparr>gets := gets st @ [k]\<rparr>)))"
    by (rule move_no_separator) simp_all
  have "process_file env k se st =
      (Inr (), se, remove_key ''X'' (put_object ''_data_error/'' [] (st\<lparr>gets := gets st @ [k]\<rparr>)))"
    by (simp add: process_file_def file_try_def get_object_present [OF ob] uv mv)
  then show ?thesis
    by (simp only: process_files_step [OF assms(1-3)]) simp
qed

text \<open>
  Claim C4 at the empty file (\<open>EmptyDataError\<close>) and at \<open>csv_ragged\<close>, which pandas
  cannot parse (\<open>ParserError\<close>). The first check returns
  \<open>"X"\<close> for both, and \<open>"X"\<close> is what is handed to \<open>move_s3_file\<close>, with the reason
  \<open>non_unique_spatial\<close>: the marker \<open>_data_error/\<close> is written and the key \<open>X\<close> is
  deleted. The file itself stays where it was and no entry for it appears under
  \<open>_data_error/\<close>.
\<close>

theorem unreadable_file_is_not_quarantined:
  "process_year_files sample_extern [''1929/01001099999.csv'']
      (sample_bucket [(''1929/01001099999.csv'', sample_object [] 3)])
   = (Inr (),
      \<lparr>objects = [(''1929/01001099999.csv'', sample_object [] 3),
                  (''_data_error/'', \<lparr>body = [], last_modified = 1000, metadata = []\<rparr>)],
       clock = 1000, gets = [''1929/01001099999.csv'']\<rparr>)
   \<and> process_year_files sample_extern [''1929/01001099999.csv'']
      (sample_bucket [(''1929/01001099999.csv'', sample_object csv_ragged 3)])
   = (Inr (),
      \<lparr>objects = [(''1929/01001099999.csv'', sample_object csv_ragged 3),
                  (''_data_error/'', \<lparr>body = [], last_modified = 1000, metadata = []\<rparr>)],
       clock = 1000, gets = [''1929/01001099999.csv'']\<rparr>)"
  by code_simp

lemma process_file_vanished:
  assumes "map_of (objects st) k = None"
  shows "process_file env k se st = file_except ''no_such_key_error'' se (st\<lparr>gets := gets st @ [k]\<rparr>)"
  by (simp add: process_file_def file_try_def get_object_absent [OF assms])

text \<open>
  Claim C6 at a key that was listed and is gone when it is read. The handler for
  \<open>NoSuchKey\<close> calls \<open>move_s3_file(spatial_errors, ...)\<close>, not the file's name. As the first
  key of a batch the variable is unbound: \<open>UnboundLocalError\<close>, and the next key is never
  read. After a file that passed both checks the variable holds \<open>None\<close>:
  \<open>AttributeError\<close>, again with the rest of the batch unprocessed.
\<close>

theorem vanished_key_is_not_quarantined:
  "process_year_files env [''1929/01001099999.csv'', ''1929/01001499999.csv'']
      (sample_bucket [(''1929/01001499999.csv'', sample_object csv_full 4)])
   = (Inl UnboundLocalError,
      \<lparr>objects = [(''1929/01001499999.csv'', sample_object csv_full 4)],
       clock = 1000, gets = [''1929/01001099999.csv'']\<rparr>)
   \<and> process_year_files sample_extern [''1929/01001099999.csv'', ''1929/01001499999.csv'', ''1929/01001599999.csv'']
      (sample_bucket [(''1929/01001099999.csv'', sample_object csv_full 3),
                      (''1929/01001599999.csv'', sample_object csv_full 4)])
   = (Inl AttributeError,
      \<lparr>objects = [(''1929/01001099999.csv'',
                   \<lparr>body = csv_full, last_modified = 1000,
                    metadata = [(''lastmodified'', ''Thu, 01 Jan 1970 00:16:40 UTC'')]\<rparr>),
                  (''1929/01001599999.csv'', sample_object csv_full 4),
                  (''_data_error/'', \<lparr>body = [], last_modified = 1000, metadata = []\<rparr>)],
       clock = 1000,
       gets = [''1929/01001099999.csv'', ''1929/01001099999.csv'', ''1929/01001499999.csv'']\<rparr>)"
proof
  show "process_year_files env [''1929/01001099999.csv'', ''1929/01001499999.csv'']
      (sample_bucket [(''1929/01001499999.csv'', sample_object csv_full 4)])
   = (Inl UnboundLocalError,
      \<lparr>objects = [(''1929/01001499999.csv'', sample_object csv_full 4)],
       clock = 1000, gets = [''1929/01001099999.csv'']\<rparr>)"
    by (simp add: process_year_files_def process_file_def file_try_def file_except_def
        get_object_def sample_bucket_def)
  show "process_year_files sample_extern [''1929/01001099999.csv'', ''1929/01001499999.csv'', ''1929/01001599999.csv'']
      (sample_bucket [(''1929/01001099999.csv'', sample_object csv_full 3),
                      (''1929/01001599999.csv'', sample_object csv_full 4)])
   = (Inl AttributeError,
      \<lparr>objects = [(''1929/01001099999.csv'',
                   \<lparr>body = csv_full, last_modified = 1000,
                    metadata = [(''lastmodified'', ''Thu, 01 Jan 1970 00:16:40 UTC'')]\<rparr>),
                  (''1929/01001599999.csv'', sample_object csv_full 4),
                  (''_data_error/'', \<lparr>body = [], last_modified = 1000, metadata = []\<rparr>)],
       clock = 1000,
       gets = [''1929/01001099999.csv'', ''1929/01001099999.csv'', ''1929/01001499999.csv'']\<rparr>)"
    by code_simp
qed

subsection \<open>Yearly averages: calculate_year_csv\<close>

lemma site_row_of_gets: "site_row_of env (st\<lparr>gets := g\<rparr>) = site_row_of env st"
  by (rule ext) (simp add: site_row_of_def)

lemma site_rows_ok:
  assumes "\<And>f. f \<in> set files \<Longrightarrow> \<exists>ob. map_of (objects st) f = Some ob
              \<and> ((\<exists>row. site_row env (body ob) = Inr row)
                 \<or> site_row env (body ob) = Inl EmptyDataError
                 \<or> site_row env (body ob) = Inl ParserError)"
  shows "site_rows env files content st =
     (Inr (content @ concat (List.map_filter (site_row_of env st) files)),
      st\<lparr>gets := gets st @ files\<rparr>)"
  using assms
proof (induction files arbitrary: content st)
  case Nil
  show ?case by (simp add: List.map_filter_simps)
next
  case (Cons f files)
  from Cons.prems [of f] obtain ob where ob: "map_of (objects st) f = Some ob"
      and out: "(\<exists>row. site_row env (body ob) = Inr row)
                 \<or> site_row env (body ob) = Inl EmptyDataError
                 \<or> site_row env (body ob) = Inl ParserError"
    by auto
  let ?st1 = "st\<lparr>gets := gets st @ [f]\<rparr>"
  have rest: "\<And>content'. site_rows env files content' ?st1 =
     (Inr (content' @ concat (List.map_filter (site_row_of env st) files)),
      st\<lparr>gets := gets st @ f # files\<rparr>)"
  proof -
    fix content'
    have "site_rows env files content' ?st1 =
       (Inr (content' @ concat (List.map_filter (site_row_of env ?st1) files)),
        ?st1\<lparr>gets := gets ?st1 @ files\<rparr>)"
      by (rule Cons.IH) (use Cons.prems in auto)
    then show "site_rows env files content' ?st1 =
     (Inr (content' @ concat (List.map_filter (site_row_of env st) files)),
      st\<lparr>gets := gets st @ f # files\<rparr>)"
      by (simp add: site_row_of_gets)
  qed
  from out show ?case
  proof (elim disjE exE)
    fix row assume r: "site_row env (body ob) = Inr row"
    then have "site_row_of env st f = Some row" by (simp add: site_row_of_def ob)
    then show ?thesis
      by (simp add: get_object_present [OF ob] r rest List.map_filter_simps)
  next
    assume r: "site_row env (body ob) = Inl EmptyDataError"
    then have "site_row_of env st f = None" by (simp add: site_row_of_def ob)
    then show ?thesis
      by (simp add: get_object_present [OF ob] r rest List.map_filter_simps)
  next
    assume r: "site_row env (body ob) = Inl ParserError"
    then have "site_row_of env st f = None" by (simp add: site_row_of_def ob)
    then show ?thesis
      by (simp add: get_object_present [OF ob] r rest List.map_filter_simps)
  qed
qed

lemma site_rows_failed_read:
  assumes "map_of (objects st) site = None"
  shows "site_rows env (site # files_l) content st = (Inl NoSuchKey, st\<lparr>gets := gets st @ [site]\<rparr>)"
  by (simp add: get_object_absent [OF assms])

lemma listed_present:
  assumes "aws_year_files year st = Inr listed" and "f \<in> set listed"
  shows "\<exists>ob. map_of (objects st) f = Some ob"
proof -
  have m: "matching year st \<noteq> []" and l: "listed = sorted_list_of_set (set (map fst (matching year st)))"
    using assms(1) by (auto simp: aws_year_files_eq split: if_splits)
  have "f \<in> set (map fst (matching year st))" using assms(2) l by simp
  then show ?thesis unfolding matching_keys by auto
qed

lemma count_newlines_rows:
  "(\<And>row. row \<in> set rows \<Longrightarrow> count_list row c = 1) \<Longrightarrow> count_list (concat rows) c = length rows"
  by (induction rows) auto

lemma count_newlines_columns: "count_list columns (CHR 0x0A) = 1"
  by (simp add: columns_def)


text \<open>
  Claim C9, as the code has it. Let the year's listing succeed, and let every listed key
  longer than 6 characters hold a file for which the row is computed (it parses and has
  the six measurement and the four spatial columns) or for which \<open>read_csv\<close> raises
  \<open>EmptyDataError\<close> or \<open>ParserError\<close>. Then the task returns normally, having read
  exactly those keys in listing order, and the summary object of the year is replaced
  by the header followed by one row per file whose row was computed, in that order; the
  other files are skipped and no other object changes. With N such rows, each on one
  line, the summary has N + 1 lines.
\<close>

theorem summary_is_header_and_rows:
  assumes run: "calc_all \<or> average_key year \<notin> set finished_files"
      and listed: "aws_year_files year st = Inr listed"
      and ok: "\<forall>f ob. f \<in> set listed \<and> 6 < length f \<and> map_of (objects st) f = Some ob \<longrightarrow>
                 (\<exists>row. site_row env (body ob) = Inr row)
                 \<or> site_row env (body ob) = Inl EmptyDataError
                 \<or> site_row env (body ob) = Inl ParserError"
  shows "let files = filter (\<lambda>x. 6 < length x) listed;
             rows = List.map_filter (site_row_of env st) files
         in \<exists>st1. calculate_year_csv env year finished_files calc_all st = (Inr (), st1)
              \<and> gets st1 = gets st @ files
              \<and> map_of (objects st1) (average_key year)
                  = Some \<lparr>body = columns @ concat rows, last_modified = clock st, metadata = []\<rparr>
              \<and> (\<forall>k. k \<noteq> average_key year \<longrightarrow> map_of (objects st1) k = map_of (objects st) k)
              \<and> ((\<forall>row \<in> set rows. count_list row (CHR 0x0A) = 1) \<longrightarrow>
                   count_list (columns @ concat rows) (CHR 0x0A) = length rows + 1)"
proof -
  let ?files = "filter (\<lambda>x. 6 < length x) listed"
  let ?rows = "List.map_filter (site_row_of env st) ?files"
  let ?st1 = "put_object (average_key year) (columns @ concat ?rows) (st\<lparr>gets := gets st @ ?files\<rparr>)"
  have each: "\<And>f. f \<in> set ?files \<Longrightarrow> \<exists>ob. map_of (objects st) f = Some ob
              \<and> ((\<exists>row. site_row env (body ob) = Inr row)
                 \<or> site_row env (body ob) = Inl EmptyDataError
                 \<or> site_row env (body ob) = Inl ParserError)"
  proof -
    fix f assume f: "f \<in> set ?files"
    then have fl: "f \<in> set listed" and len: "6 < length f" by simp_all
    from listed_present [OF listed fl] obtain ob where ob: "map_of (objects st) f = Some ob" by blast
    with ok fl len show "\<exists>ob. map_of (objects st) f = Some ob
              \<and> ((\<exists>row. site_row env (body ob) = Inr row)
                 \<or> site_row env (body ob) = Inl EmptyDataError
                 \<or> site_row env (body ob) = Inl ParserError)" by blast
  qed
  have loop: "site_rows env ?files columns st = (Inr (columns @ concat ?rows), st\<lparr>gets := gets st @ ?files\<rparr>)"
    by (rule site_rows_ok [OF each])
  have body: "calculate_year_run env year st = (Inr (), ?st1)"
    by (simp add: calculate_year_run_def listed Let_def loop)
  have calc: "calculate_year_csv env year finished_files calc_all st = (Inr (), ?st1)"
    using run by (auto simp: calculate_year_csv_def body)
  have g: "gets ?st1 = gets st @ ?files" by (simp add: put_object_def)
  have w: "map_of (objects ?st1) (average_key year)
      = Some \<lparr>body = columns @ concat ?rows, last_modified = clock st, metadata = []\<rparr>"
    by (simp add: map_of_put_object)
  have fr: "\<forall>k. k \<noteq> average_key year \<longrightarrow> map_of (objects ?st1) k = map_of (objects st) k"
    by (simp add: map_of_put_object)
  have ln: "(\<forall>row \<in> set ?rows. count_list row (CHR 0x0A) = 1) \<longrightarrow>
      count_list (columns @ concat ?rows) (CHR 0x0A) = length ?rows + 1"
    by (simp add: count_newlines_rows count_newlines_columns)
  from calc g w fr ln show ?thesis unfolding Let_def by blast
qed

text \<open>
  The claim C9 as stated fails: a year whose only file parses but has no \<open>TEMP\<close> column
  ends the task with \<open>KeyError\<close>, and no summary is written.
\<close>

theorem summary_missing_metric_counterexample:
  "read_csv sample_extern csv_no_temp =
     Inr [(''STATION'', [Some ''1001099999'']),
          (''LATITUDE'', [Some ''70.93'']),
          (''LONGITUDE'', [Some ''-8.66'']),
          (''ELEVATION'', [Some ''9.0'']),
          (''DEWP'', [Some ''40'']),
          (''STP'', [Some ''30'']),
          (''MIN'', [Some ''45'']),
          (''MAX'', [Some ''55'']),
          (''PRCP'', [Some ''0''])]
   \<and> calculate_year_csv sample_extern ''1929'' [] False
        (sample_bucket [(''1929/01001099999.csv'', sample_object csv_no_temp 3)])
     = (Inl KeyError,
        \<lparr>objects = [(''1929/01001099999.csv'', sample_object csv_no_temp 3)],
         clock = 1000, gets = [''1929/01001099999.csv'']\<rparr>)"
  by code_simp


theorem summary_is_header_and_rows_witness:
  "fst (calculate_year_csv sample_extern ''1929'' [] False
      (sample_bucket [(''1929/01001499999.csv'', sample_object [] 4),
                      (''1929/01001099999.csv'', sample_object csv_full 3),
                      (''1929/'', sample_object [] 1),
                      (''year_average/avg_1929.csv'', sample_object ''old'' 5)])) = Inr ()
   \<and> gets (snd (calculate_year_csv sample_extern ''1929'' [] False
      (sample_bucket [(''1929/01001499999.csv'', sample_object [] 4),
                      (''1929/01001099999.csv'', sample_object csv_full 3),
                      (''1929/'', sample_object [] 1),
                      (''year_average/avg_1929.csv'', sample_object ''old'' 5)])))
       = [''1929/01001099999.csv'', ''1929/01001499999.csv'']
   \<and> map_of (objects (snd (calculate_year_csv sample_extern ''1929'' [] False
      (sample_bucket [(''1929/01001499999.csv'', sample_object [] 4),
                      (''1929/01001099999.csv'', sample_object csv_full 3),
                      (''1929/'', sample_object [] 1),
                      (''year_average/avg_1929.csv'', sample_object ''old'' 5)]))))
        ''year_average/avg_1929.csv''
       = Some \<lparr>body = columns @ ''[1001099999],[70.93],[-8.66],[9.],55.0,41.0,31.0,46.0,56.0,0.0\<newline>'',
               last_modified = 1000, metadata = []\<rparr>"
proof -
  let ?st = "sample_bucket [(''1929/01001499999.csv'', sample_object [] 4),
                      (''1929/01001099999.csv'', sample_object csv_full 3),
                      (''1929/'', sample_object [] 1),
                      (''year_average/avg_1929.csv'', sample_object ''old'' 5)]"
  let ?listed = "[''1929/'', ''1929/01001099999.csv'', ''1929/01001499999.csv'']"
  have run: "False \<or> average_key ''1929'' \<notin> set []" by simp
  have listed: "aws_year_files ''1929'' ?st = Inr ?listed" by code_simp
  have r1: "site_row sample_extern csv_full
      = Inr ''[1001099999],[70.93],[-8.66],[9.],55.0,41.0,31.0,46.0,56.0,0.0\<newline>''"
    by code_simp
  have r2: "site_row sample_extern [] = Inl EmptyDataError" by code_simp
  have ok: "\<forall>f ob. f \<in> set ?listed \<and> 6 < length f \<and> map_of (objects ?st) f = Some ob \<longrightarrow>
                 (\<exists>row. site_row sample_extern (body ob) = Inr row)
                 \<or> site_row sample_extern (body ob) = Inl EmptyDataError
                 \<or> site_row sample_extern (body ob) = Inl ParserError"
    by (auto simp: sample_bucket_def sample_object_def r1 r2)
  have rows: "List.map_filter (site_row_of sample_extern ?st) [''1929/01001099999.csv'', ''1929/01001499999.csv'']
      = [''[1001099999],[70.93],[-8.66],[9.],55.0,41.0,31.0,46.0,56.0,0.0\<newline>'']"
    by code_simp
  have files: "filter (\<lambda>x. 6 < length x) ?listed = [''1929/01001099999.csv'', ''1929/01001499999.csv'']"
    by simp
  have clk: "clock ?st = 1000" "gets ?st = []" by (simp_all add: sample_bucket_def)
  from summary_is_header_and_rows [OF run listed ok]
  obtain st1 where "calculate_year_csv sample_extern ''1929'' [] False ?st = (Inr (), st1)"
      and "gets st1 = gets ?st @ filter (\<lambda>x. 6 < length x) ?listed"
      and "map_of (objects st1) (average_key ''1929'')
            = Some \<lparr>body = columns @ concat (List.map_filter (site_row_of sample_extern ?st)
                        (filter (\<lambda>x. 6 < length x) ?listed)),
                    last_modified = clock ?st, metadata = []\<rparr>"
    unfolding Let_def by blast
  then show ?thesis
    unfolding files rows clk by (simp add: average_key_def)
qed

subsection \<open>The flow: which years are skipped\<close>

lemma calculate_year_csv_skips:
  assumes "\<not> calc_all" and "average_key year \<in> set finished_files"
  shows "calculate_year_csv env year finished_files calc_all st = (Inr (), st)"
  using assms by (simp add: calculate_year_csv_def)

lemma matching_mem:
  assumes "map_of (objects st) k = Some ob" and "prefix pfx k"
  shows "(k, last_modified ob) \<in> set (matching pfx st)"
proof -
  have "map_of (AList.clearjunk (objects st)) k = Some ob"
    using assms(1) by (simp add: map_of_clearjunk)
  then have "(k, ob) \<in> set (AList.clearjunk (objects st))" by (rule map_of_SomeD)
  then have "(k, ob) \<in> set (filter (\<lambda>(k, ob). prefix pfx k) (AList.clearjunk (objects st)))"
    using assms(2) by simp
  then have "(\<lambda>(k, ob). (k, last_modified ob)) (k, ob)
      \<in> (\<lambda>(k, ob). (k, last_modified ob)) ` set (filter (\<lambda>(k, ob). prefix pfx k) (AList.clearjunk (objects st)))"
    by (rule imageI)
  then show ?thesis by (simp add: matching_def)
qed

lemma recent_summary_skips:
  assumes "\<not> calc_all"
      and ob: "map_of (objects st) (average_key year) = Some ob"
      and recent: "if time_less_than then clock st - 60 * min_old < last_modified ob
           else last_modified ob < clock st - 60 * min_old"
  shows "t5_calc_complete env year min_old time_less_than calc_all st = (Inr (), st)"
proof -
  let ?P = "\<lambda>x::string \<times> int. if time_less_than then snd x > clock st - 60 * min_old
                            else snd x < clock st - 60 * min_old"
  let ?l = "sorted_list_of_set (set (map fst (filter ?P (matching ''year_average'' st))))"
  have p: "prefix ''year_average'' (average_key year)" by (simp add: average_key_def)
  have m: "(average_key year, last_modified ob) \<in> set (matching ''year_average'' st)"
    by (rule matching_mem [OF ob p])
  then have ne: "matching ''year_average'' st \<noteq> []" by auto
  have d: "aws_all_year_files ''year_average'' min_old time_less_than st = Inr ?l"
    using ne by (simp only: aws_all_year_files_eq if_False)
  have "(average_key year, last_modified ob) \<in> set (filter ?P (matching ''year_average'' st))"
    using m recent by simp
  then have "fst (average_key year, last_modified ob) \<in> fst ` set (filter ?P (matching ''year_average'' st))"
    by (rule imageI)
  then have "average_key year \<in> set ?l" by simp
  then have "calculate_year_csv env year ?l calc_all st = (Inr (), st)"
    by (rule calculate_year_csv_skips [OF assms(1)])
  then show ?thesis by (simp only: t5_calc_complete_def d sum.case)
qed

text \<open>
  Claim C3 at a summary that exists but was written more than \<open>MINUTES_OLD\<close> minutes
  ago, with the flow's defaults (\<open>MINUTES_OLD = 1\<close>, \<open>TIME_LESS_THAN = True\<close>,
  \<open>CALC_ALL_YEARS = False\<close>). The listing that is handed over as \<open>finished_files\<close> is
  filtered by modification time and leaves the summary out, so the year is computed
  again: the data file is read and the summary object is replaced. (A summary that
  passes the filter is skipped: \<open>recent_summary_skips\<close>.)
\<close>

theorem stale_summary_is_recomputed:
  "t5_calc_complete sample_extern ''1929'' 1 True False
      (sample_bucket [(''1929/01001099999.csv'', sample_object csv_full 3),
                      (''year_average/avg_1929.csv'', sample_object ''old'' 5)])
   = (Inr (),
      \<lparr>objects = [(''1929/01001099999.csv'', sample_object csv_full 3),
                  (''year_average/avg_1929.csv'',
                   \<lparr>body = columns @ ''[1001099999],[70.93],[-8.66],[9.],55.0,41.0,31.0,46.0,56.0,0.0\<newline>'',
                    last_modified = 1000, metadata = []\<rparr>)],
       clock = 1000, gets = [''1929/01001099999.csv'']\<rparr>)
   \<and> aws_all_year_files ''year_average'' 1 True
      (sample_bucket [(''1929/01001099999.csv'', sample_object csv_full 3),
                      (''year_average/avg_1929.csv'', sample_object ''old'' 5)]) = Inr []"
  by code_simp

end
